theory Spec2Isabelle
  imports Main
begin

section \<open>Python values used by the two crews\<close>

text \<open>
  The crews are Python classes that build prompt text with f-strings, read configuration
  from dictionaries and hand \<^verbatim>\<open>Task\<close> objects to the agent framework. Every raise of the
  Python is a value of \<open>error\<close>: a failure of the executor (with the executor's own error
  \<open>'e\<close> carried unchanged), a step whose upstream output is missing, a dictionary
  subscript on a missing key, a list subscript out of range.
\<close>

datatype 'e error =
    ExecutorError 'e
  | MissingDependency string
  | KeyError string
  | IndexError

text \<open>\<^verbatim>\<open>d[k]\<close>, \<^verbatim>\<open>d.get(k, default)\<close> and \<^verbatim>\<open>xs[i]\<close> (for \<open>i \<ge> 0\<close>).\<close>

definition dict_getitem :: "(string \<rightharpoonup> 'v) \<Rightarrow> string \<Rightarrow> 'e error + 'v" where
  "dict_getitem d k = (case d k of None \<Rightarrow> Inl (KeyError k) | Some v \<Rightarrow> Inr v)"

definition dict_get :: "(string \<rightharpoonup> 'v) \<Rightarrow> string \<Rightarrow> 'v \<Rightarrow> 'v" where
  "dict_get d k dflt = (case d k of None \<Rightarrow> dflt | Some v \<Rightarrow> v)"

definition list_getitem :: "'a list \<Rightarrow> nat \<Rightarrow> 'e error + 'a" where
  "list_getitem xs i = (if i < length xs then Inr (xs ! i) else Inl IndexError)"

text \<open>\<^verbatim>\<open>sep.join(xs)\<close> on a list of strings.\<close>

fun py_join :: "string \<Rightarrow> string list \<Rightarrow> string" where
  "py_join sep [] = []"
| "py_join sep [x] = x"
| "py_join sep (x # y # ys) = x @ sep @ py_join sep (y # ys)"

text \<open>\<^verbatim>\<open>str(n)\<close> of an integer, in decimal, and of \<^verbatim>\<open>None\<close>.\<close>

definition digit_char :: "nat \<Rightarrow> char" where
  "digit_char d = ''0123456789'' ! d"

function str_nat :: "nat \<Rightarrow> string" where
  "str_nat n = (if n < 10 then [digit_char n] else str_nat (n div 10) @ [digit_char (n mod 10)])"
  by pat_completeness auto
termination
  by (relation "measure id") auto

definition str_int :: "int \<Rightarrow> string" where
  "str_int i = (if i < 0 then CHR ''-'' # str_nat (nat (- i)) else str_nat (nat i))"

definition str_opt_int :: "int option \<Rightarrow> string" where
  "str_opt_int v = (case v of None \<Rightarrow> ''None'' | Some i \<Rightarrow> str_int i)"

text \<open>
  One entry of \<^verbatim>\<open>PLATFORM_SPECS\<close>: a dictionary with the four keys \<^verbatim>\<open>width\<close>,
  \<^verbatim>\<open>height\<close>, \<^verbatim>\<open>fps\<close> and \<^verbatim>\<open>max_duration\<close>, the last one an integer or
  \<^verbatim>\<open>None\<close>. \<open>str_specs\<close> is what \<^verbatim>\<open>str\<close> prints for such a dictionary.
\<close>

record specs =
  width :: int
  height :: int
  fps :: int
  max_duration :: "int option"

definition str_specs :: "specs \<Rightarrow> string" where
  "str_specs sp =
     ''{'width': '' @ str_int (width sp) @ '', 'height': '' @ str_int (height sp) @
     '', 'fps': '' @ str_int (fps sp) @ '', 'max_duration': '' @ str_opt_int (max_duration sp) @ ''}''"

text \<open>
  The values a pipeline result holds: \<^verbatim>\<open>None\<close>, a text, a platform spec entry, or the
  campaign brief. A result is a Python dictionary; it is kept as the list of its items in
  insertion order, so that its keys can be counted. The values of a campaign brief are
  taken to be texts, as in the example of the module and as the f-strings print them.
\<close>

datatype pyval = PNone | PStr string | PSpecs specs | PDict "string \<rightharpoonup> string"

type_synonym pydict = "(string \<times> pyval) list"

section \<open>The agent framework: agents, tasks, a crew and its sequential kickoff\<close>

record agent =
  role :: string
  goal :: string
  backstory :: string
  verbose :: bool
  allow_delegation :: bool

text \<open>
  A \<^verbatim>\<open>Task\<close>. \<open>task_id\<close> stands for the identity of the Python object (the variable
  that names it); \<open>task_context\<close> (the \<^verbatim>\<open>context\<close> argument) lists the tasks whose
  output this one depends on, by that identity, and is empty when the argument is omitted.
\<close>

record task =
  task_id :: string
  description :: string
  expected_output :: string
  agent :: agent
  task_context :: "string list"

datatype process = sequential

record crew =
  crew_agents :: "agent list"
  crew_tasks :: "task list"
  crew_process :: process
  crew_verbose :: bool

text \<open>
  The executor is the opaque capability behind \<^verbatim>\<open>kickoff\<close>: given a step and the outputs
  of its declared dependencies it returns a text or fails, and it may have effects of its
  own, which are threaded through its state \<open>'s\<close>.
\<close>

type_synonym ('e, 's) executor = "task \<Rightarrow> string list \<Rightarrow> 's \<Rightarrow> ('e + string) \<times> 's"

text \<open>
  One call of the executor, as a run observes it: the step, the dependency outputs it was
  given, and what came back.
\<close>

record 'e event =
  ev_task :: task
  ev_inputs :: "string list"
  ev_outcome :: "'e + string"

text \<open>
  The state of one run: the Run Context (the \<^verbatim>\<open>output\<close> attribute of every task that has
  completed, by task identity), the calls of the executor so far, in order, and the
  executor's state.
\<close>

record ('e, 's) run_state =
  run_context :: "string \<rightharpoonup> string"
  trace :: "'e event list"
  exec_state :: 's

definition fresh_run :: "'s \<Rightarrow> ('e, 's) run_state" where
  "fresh_run s = \<lparr>run_context = Map.empty, trace = [], exec_state = s\<rparr>"

text \<open>
  Modelled from the spec: \<^verbatim>\<open>Crew.kickoff\<close> with \<^verbatim>\<open>Process.sequential\<close> belongs to the
  agent framework, which is imported by the crews and is not among the sources. The
  definitions \<open>resolve_context\<close>, \<open>run_tasks\<close> and \<open>kickoff\<close> follow the contract of the
  Pipeline Runner (section 4.1 of the specification): for each step in sequence the outputs
  of its declared dependencies are retrieved from the Run Context, the executor is invoked,
  and the returned text is recorded under the step's identifier; a failure of the executor
  aborts the run and is surfaced to the caller; after all steps the last step's output is
  the result. A dependency with no recorded output is left undefined by the specification
  (section 7); here it is the error \<open>MissingDependency\<close>, raised before the executor is
  called. A crew with no task returns \<^verbatim>\<open>None\<close>.
\<close>

fun resolve_context :: "(string \<rightharpoonup> string) \<Rightarrow> string list \<Rightarrow> 'e error + string list" where
  "resolve_context ctx [] = Inr []"
| "resolve_context ctx (d # ds) =
     (case ctx d of
        None \<Rightarrow> Inl (MissingDependency d)
      | Some out \<Rightarrow>
          (case resolve_context ctx ds of
             Inl err \<Rightarrow> Inl err
           | Inr outs \<Rightarrow> Inr (out # outs)))"

text \<open>
  Modelled from the spec: the loop of the sequential \<^verbatim>\<open>Crew.kickoff\<close> (agent framework,
  not among the sources; section 4.1). \<open>final\<close> is the output of the last step that has
  completed, \<^verbatim>\<open>None\<close> before the first.
\<close>

fun run_tasks ::
  "('e, 's) executor \<Rightarrow> task list \<Rightarrow> pyval \<Rightarrow> ('e, 's) run_state
     \<Rightarrow> ('e error + pyval) \<times> ('e, 's) run_state" where
  "run_tasks ex [] final st = (Inr final, st)"
| "run_tasks ex (t # ts) final st =
     (case resolve_context (run_context st) (task_context t) of
        Inl err \<Rightarrow> (Inl err, st)
      | Inr inputs \<Rightarrow>
          (case ex t inputs (exec_state st) of
             (Inl e, s') \<Rightarrow>
               (Inl (ExecutorError e),
                st\<lparr>trace := trace st @ [\<lparr>ev_task = t, ev_inputs = inputs, ev_outcome = Inl e\<rparr>],
                   exec_state := s'\<rparr>)
           | (Inr out, s') \<Rightarrow>
               run_tasks ex ts (PStr out)
                 (st\<lparr>run_context := (run_context st)(task_id t \<mapsto> out),
                    trace := trace st @ [\<lparr>ev_task = t, ev_inputs = inputs, ev_outcome = Inr out\<rparr>],
                    exec_state := s'\<rparr>)))"

text \<open>
  Modelled from the spec: \<^verbatim>\<open>Crew.kickoff\<close> (agent framework, not among the sources):
  every call starts from a fresh Run Context (section 3, lifecycle).
\<close>

definition kickoff ::
  "crew \<Rightarrow> ('e, 's) executor \<Rightarrow> 's \<Rightarrow> ('e error + pyval) \<times> ('e, 's) run_state" where
  "kickoff c ex s = run_tasks ex (crew_tasks c) PNone (fresh_run s)"

text \<open>
  \<^verbatim>\<open>t.output if hasattr(t, 'output') else None\<close>, read after the run: the recorded output
  of the task, or \<^verbatim>\<open>None\<close> when it has none.
\<close>

definition task_output :: "('e, 's) run_state \<Rightarrow> task \<Rightarrow> pyval" where
  "task_output st t = (case run_context st (task_id t) of None \<Rightarrow> PNone | Some out \<Rightarrow> PStr out)"

section \<open>ContentCrew (content\_crew.py)\<close>

record content_crew =
  brief :: "string \<rightharpoonup> string"
  agents :: "agent list"

definition hook_specialist_backstory :: string where
  \<open>hook_specialist_backstory =
     ''You are the world's foremost expert on psychological hooks.\<newline>'' @
     ''\<newline>'' @
     ''            CRITICAL KNOWLEDGE:\<newline>'' @
     ''            - 73% of video ads fail in the first 3 seconds because they look like ads\<newline>'' @
     ''            - Average scroll decision: 0.5 seconds\<newline>'' @
     ''            - Videos losing >35% at 3 seconds get algorithmically buried\<newline>'' @
     ''            - 65%+ retention at 3 seconds = 4-7x more impressions\<newline>'' @
     ''\<newline>'' @
     ''            HOOK PSYCHOLOGY (Every hook needs 1-2):\<newline>'' @
     ''            1. Pattern Interrupt - Break the scroll trance\<newline>'' @
     ''            2. Curiosity Gap - Incomplete info creates tension\<newline>'' @
     ''            3. Value Promise - Signal reward for watching\<newline>'' @
     ''            4. Loss Aversion - Losses hurt 2x more than gains\<newline>'' @
     ''            5. Social Proof - Tribal validation\<newline>'' @
     ''            6. Scarcity/Urgency - Limited = valuable\<newline>'' @
     ''\<newline>'' @
     ''            The uncertainty of reward triggers more dopamine than the reward itself.\<newline>'' @
     ''            You create hooks that demand attention through psychological precision.''\<close>

definition hook_specialist :: agent where
  "hook_specialist = \<lparr>role = ''Hook Specialist'',
     goal = ''Create scroll-stopping hooks that capture attention in 0.5 seconds'',
     backstory = hook_specialist_backstory, verbose = True, allow_delegation = False\<rparr>"

definition psychology_copywriter_backstory :: string where
  \<open>psychology_copywriter_backstory =
     ''You are an expert in applying mental models to marketing.\<newline>'' @
     ''\<newline>'' @
     ''            CORE MENTAL MODELS:\<newline>'' @
     ''            - Jobs to Be Done: People hire products for progress\<newline>'' @
     ''            - Loss Aversion: Losses hurt 2x more than equivalent gains\<newline>'' @
     ''            - Social Proof: We look to others for behavioral guidance\<newline>'' @
     ''            - Scarcity: Limited availability increases perceived value\<newline>'' @
     ''            - Anchoring: First number sets the reference point\<newline>'' @
     ''            - Reciprocity: Give value before asking\<newline>'' @
     ''            - Authority: Expert endorsement builds trust\<newline>'' @
     ''            - Commitment/Consistency: Small yeses lead to big yeses\<newline>'' @
     ''\<newline>'' @
     ''            BEHAVIORAL ECONOMICS:\<newline>'' @
     ''            - Prospect Theory: Frame gains vs losses carefully\<newline>'' @
     ''            - Endowment Effect: Ownership increases value\<newline>'' @
     ''            - Sunk Cost: Past investment influences future decisions\<newline>'' @
     ''            - Present Bias: Immediate rewards > future rewards\<newline>'' @
     ''\<newline>'' @
     ''            PERSUASION PRINCIPLES:\<newline>'' @
     ''            - Contrast Principle: Show the alternative first\<newline>'' @
     ''            - Peak-End Rule: People remember peaks and endings\<newline>'' @
     ''            - Mere Exposure: Familiarity breeds preference\<newline>'' @
     ''\<newline>'' @
     ''            You write copy that speaks to deep human motivations, not surface desires.\<newline>'' @
     ''            People don't buy products. They buy better versions of themselves.''\<close>

definition psychology_copywriter :: agent where
  "psychology_copywriter = \<lparr>role = ''Psychology-Driven Copywriter'',
     goal = ''Write copy that converts using 70+ behavioral science principles'',
     backstory = psychology_copywriter_backstory, verbose = True, allow_delegation = False\<rparr>"

definition platform_expert_backstory :: string where
  \<open>platform_expert_backstory =
     ''You know every platform intimately:\<newline>'' @
     ''\<newline>'' @
     ''            TIKTOK (Gen Z: 13-28):\<newline>'' @
     ''            - Style: Raw, chaotic, meme-literate, ironic\<newline>'' @
     ''            - Aesthetic: Y2K, maximalist\<newline>'' @
     ''            - Algorithm: Watch time + completion rate + shares\<newline>'' @
     ''            - Hooks: First 1 second is everything\<newline>'' @
     ''            - 85% watch muted - captions essential\<newline>'' @
     ''\<newline>'' @
     ''            INSTAGRAM REELS (Millennials: 29-44):\<newline>'' @
     ''            - Style: Aesthetic, aspirational, polished-casual\<newline>'' @
     ''            - Aesthetic: Clean, warm tones\<newline>'' @
     ''            - Algorithm: Saves + shares > likes\<newline>'' @
     ''            - Hooks: First 3 seconds critical\<newline>'' @
     ''\<newline>'' @
     ''            YOUTUBE SHORTS (All ages):\<newline>'' @
     ''            - Style: Value-packed, educational lean\<newline>'' @
     ''            - Algorithm: Click-through + watch time\<newline>'' @
     ''            - Hooks: Thumbnail + first 2 seconds\<newline>'' @
     ''\<newline>'' @
     ''            LINKEDIN (Gen X: 45-60, B2B):\<newline>'' @
     ''            - Style: Professional, thought-leadership\<newline>'' @
     ''            - Aesthetic: Trustworthy, authoritative\<newline>'' @
     ''            - Algorithm: Comments + dwell time\<newline>'' @
     ''\<newline>'' @
     ''            You optimize for each platform's unique requirements and audience expectations.''\<close>

definition platform_expert :: agent where
  "platform_expert = \<lparr>role = ''Platform Optimization Expert'',
     goal = ''Adapt content perfectly for each platform's algorithm and audience'',
     backstory = platform_expert_backstory, verbose = True, allow_delegation = False\<rparr>"

definition generate_ad_copy_description :: "string \<Rightarrow> string \<Rightarrow> string \<Rightarrow> string list \<Rightarrow> string" where
  \<open>generate_ad_copy_description hook product platform mental_models =
     ''Develop complete ad copy for:\<newline>'' @
     ''\<newline>'' @
     ''            HOOK: '' @
     hook @
     ''\<newline>'' @
     ''            PRODUCT: '' @
     product @
     ''\<newline>'' @
     ''            PLATFORM: '' @
     platform @
     ''\<newline>'' @
     ''            MENTAL MODELS TO APPLY: '' @
     py_join '', '' mental_models @
     ''\<newline>'' @
     ''\<newline>'' @
     ''            CREATE:\<newline>'' @
     ''            1. Primary text (125-250 characters for FB/IG)\<newline>'' @
     ''            2. Headline (benefit-driven, under 40 chars)\<newline>'' @
     ''            3. Description (supporting value prop)\<newline>'' @
     ''            4. CTA (action-oriented, creates urgency)\<newline>'' @
     ''\<newline>'' @
     ''            REQUIREMENTS:\<newline>'' @
     ''            - Apply each specified mental model deliberately\<newline>'' @
     ''            - Explain how each model is being used\<newline>'' @
     ''            - Match platform tone and style\<newline>'' @
     ''            - Focus on transformation, not features\<newline>'' @
     ''            ''\<close>

definition hook_task_description :: "content_crew \<Rightarrow> string" where
  \<open>hook_task_description self =
     ''Create 5 hook variations for:\<newline>'' @
     ''\<newline>'' @
     ''            PRODUCT: '' @
     dict_get (brief self) ''product'' ''Unknown product'' @
     ''\<newline>'' @
     ''            AUDIENCE: '' @
     dict_get (brief self) ''audience'' ''General audience'' @
     ''\<newline>'' @
     ''            PLATFORM: '' @
     dict_get (brief self) ''platform'' ''TikTok'' @
     ''\<newline>'' @
     ''            EMOTION: '' @
     dict_get (brief self) ''emotional_trigger'' ''Curiosity'' @
     ''\<newline>'' @
     ''\<newline>'' @
     ''            Apply pattern interrupts and curiosity gaps.''\<close>

definition copy_task_description :: "string" where
  \<open>copy_task_description =
     ''Take the best performing hook from the previous analysis\<newline>'' @
     ''            and develop complete ad copy.\<newline>'' @
     ''\<newline>'' @
     ''            Apply these mental models:\<newline>'' @
     ''            - Loss Aversion\<newline>'' @
     ''            - Social Proof\<newline>'' @
     ''            - Scarcity\<newline>'' @
     ''\<newline>'' @
     ''            Include primary text, headline, description, and CTA.''\<close>

definition optimize_task_description :: "content_crew \<Rightarrow> string" where
  \<open>optimize_task_description self =
     ''Optimize the ad copy for '' @
     dict_get (brief self) ''platform'' ''TikTok'' @
     ''.\<newline>'' @
     ''\<newline>'' @
     ''            Ensure:\<newline>'' @
     ''            - Platform-native tone\<newline>'' @
     ''            - Correct character limits\<newline>'' @
     ''            - Algorithm optimization\<newline>'' @
     ''            - Engagement signals''\<close>

definition ContentCrew_create_agents :: "agent list" where
  "ContentCrew_create_agents = [hook_specialist, psychology_copywriter, platform_expert]"

definition ContentCrew_init :: "(string \<rightharpoonup> string) \<Rightarrow> content_crew" where
  "ContentCrew_init campaign_brief = \<lparr>brief = campaign_brief, agents = ContentCrew_create_agents\<rparr>"

text \<open>
  \<^verbatim>\<open>generate_ad_copy(hook, product, platform, mental_models=None)\<close>: one task for the
  copywriter (\<^verbatim>\<open>self.agents[1]\<close>), run by a crew of its own.
\<close>

definition generate_ad_copy ::
  "content_crew \<Rightarrow> string \<Rightarrow> string \<Rightarrow> string \<Rightarrow> string list option \<Rightarrow> ('e, 's) executor \<Rightarrow> 's
     \<Rightarrow> ('e error + pyval) \<times> ('e, 's) run_state" where
  "generate_ad_copy self hook product platform mental_models ex s =
     (let mental_models =
            (case mental_models of
               None \<Rightarrow> [''Loss Aversion'', ''Social Proof'']
             | Some ms \<Rightarrow> ms);
          task_description = generate_ad_copy_description hook product platform mental_models
      in case list_getitem (agents self) 1 of
           Inl err \<Rightarrow> (Inl err, fresh_run s)
         | Inr a1 \<Rightarrow>
             kickoff
               \<lparr>crew_agents = [a1],
                crew_tasks =
                  [\<lparr>task_id = ''task'', description = task_description,
                    expected_output = ''Complete ad copy package with psychological rationale'',
                    agent = a1, task_context = []\<rparr>],
                crew_process = sequential, crew_verbose = True\<rparr>
               ex s)"

text \<open>
  \<^verbatim>\<open>run_full_content_pipeline()\<close>: three tasks, hook, copy (with the hook task as
  context) and platform optimisation (with the copy task as context), run by one crew; then
  the result dictionary is assembled from the outputs of the tasks.
\<close>

definition run_full_content_pipeline ::
  "content_crew \<Rightarrow> ('e, 's) executor \<Rightarrow> 's \<Rightarrow> ('e error + pydict) \<times> ('e, 's) run_state" where
  "run_full_content_pipeline self ex s =
     (case list_getitem (agents self) 0 of
        Inl err \<Rightarrow> (Inl err, fresh_run s)
      | Inr a0 \<Rightarrow>
     (case list_getitem (agents self) 1 of
        Inl err \<Rightarrow> (Inl err, fresh_run s)
      | Inr a1 \<Rightarrow>
     (case list_getitem (agents self) 2 of
        Inl err \<Rightarrow> (Inl err, fresh_run s)
      | Inr a2 \<Rightarrow>
     (let hook_task =
            \<lparr>task_id = ''hook_task'', description = hook_task_description self,
             expected_output = ''5 hooks with psychological analysis'',
             agent = a0, task_context = []\<rparr>;
          copy_task =
            \<lparr>task_id = ''copy_task'', description = copy_task_description,
             expected_output = ''Complete ad copy with mental model application'',
             agent = a1, task_context = [task_id hook_task]\<rparr>;
          optimize_task =
            \<lparr>task_id = ''optimize_task'', description = optimize_task_description self,
             expected_output = ''Final platform-optimized content package'',
             agent = a2, task_context = [task_id copy_task]\<rparr>;
          c = \<lparr>crew_agents = agents self,
               crew_tasks = [hook_task, copy_task, optimize_task],
               crew_process = sequential, crew_verbose = True\<rparr>
      in case kickoff c ex s of
           (Inl err, st) \<Rightarrow> (Inl err, st)
         | (Inr result, st) \<Rightarrow>
             (Inr [(''hooks'', task_output st hook_task),
                   (''copy'', task_output st copy_task),
                   (''optimized'', result),
                   (''platform'', (case brief self ''platform'' of None \<Rightarrow> PNone | Some p \<Rightarrow> PStr p)),
                   (''brief'', PDict (brief self))],
              st)))))"


section \<open>VideoCrew (video\_crew.py)\<close>

text \<open>The class attribute \<^verbatim>\<open>PLATFORM_SPECS\<close>.\<close>

definition PLATFORM_SPECS :: "string \<rightharpoonup> specs" where
  "PLATFORM_SPECS = map_of
     [(''tiktok'', \<lparr>width = 1080, height = 1920, fps = 30, max_duration = Some 180\<rparr>),
      (''instagram_reels'', \<lparr>width = 1080, height = 1920, fps = 30, max_duration = Some 90\<rparr>),
      (''youtube_shorts'', \<lparr>width = 1080, height = 1920, fps = 30, max_duration = Some 60\<rparr>),
      (''youtube'', \<lparr>width = 1920, height = 1080, fps = 30, max_duration = None\<rparr>),
      (''instagram_feed'', \<lparr>width = 1080, height = 1080, fps = 30, max_duration = Some 60\<rparr>)]"

text \<open>
  \<^verbatim>\<open>self.PLATFORM_SPECS.get(platform, self.PLATFORM_SPECS["tiktok"])\<close>, the first
  statement of three methods: the default is read with a subscript, before the lookup.
\<close>

definition resolve_specs :: "string \<Rightarrow> 'e error + specs" where
  "resolve_specs platform =
     (case dict_getitem PLATFORM_SPECS ''tiktok'' of
        Inl err \<Rightarrow> Inl err
      | Inr dflt \<Rightarrow> Inr (dict_get PLATFORM_SPECS platform dflt))"

record video_crew =
  strategy :: "string \<rightharpoonup> string"
  video_agents :: "agent list"

definition video_director_backstory :: string where
  \<open>video_director_backstory =
     ''You are a video strategist who understands attention science.\<newline>'' @
     ''\<newline>'' @
     ''            CRITICAL RETENTION KNOWLEDGE:\<newline>'' @
     ''            - 65%+ retention at 3 seconds = 4-7x more impressions\<newline>'' @
     ''            - 85% watch videos muted - text/captions are essential\<newline>'' @
     ''            - Person speaking to camera converts 33% better\<newline>'' @
     ''            - Videos losing >35% at 3 seconds get algorithmically buried\<newline>'' @
     ''            - Average scroll decision: 0.5 seconds\<newline>'' @
     ''\<newline>'' @
     ''            VIDEO STRUCTURE PRINCIPLES:\<newline>'' @
     ''            - Hook (0-3s): Pattern interrupt, curiosity gap\<newline>'' @
     ''            - Problem (3-7s): Agitate the pain point\<newline>'' @
     ''            - Solution (7-12s): Present the transformation\<newline>'' @
     ''            - Proof (12-18s): Social proof, results\<newline>'' @
     ''            - CTA (last 3s): Clear action with urgency\<newline>'' @
     ''\<newline>'' @
     ''            EMOTIONAL ARC:\<newline>'' @
     ''            - Start with tension/curiosity\<newline>'' @
     ''            - Build to emotional peak (usually at 60-70% mark)\<newline>'' @
     ''            - End with resolution + action\<newline>'' @
     ''\<newline>'' @
     ''            PACING:\<newline>'' @
     ''            - Scene changes every 2-3 seconds\<newline>'' @
     ''            - Text on screen synced with speech\<newline>'' @
     ''            - Motion on every frame''\<close>

definition video_director :: agent where
  "video_director = \<lparr>role = ''Video Strategy Director'',
     goal = ''Design video structure that maximizes retention and conversion'',
     backstory = video_director_backstory, verbose = True, allow_delegation = False\<rparr>"

definition remotion_coder_backstory :: string where
  \<open>remotion_coder_backstory =
     ''You are an expert in Remotion video generation framework.\<newline>'' @
     ''\<newline>'' @
     ''            ALWAYS USE:\<newline>'' @
     ''            - useCurrentFrame() for ALL motion\<newline>'' @
     ''            - interpolate() for value mapping\<newline>'' @
     ''            - spring() for natural movement\<newline>'' @
     ''            - <Sequence> for timing sections\<newline>'' @
     ''            - staticFile() for assets in public/\<newline>'' @
     ''\<newline>'' @
     ''            NEVER USE:\<newline>'' @
     ''            - CSS animations or transitions\<newline>'' @
     ''            - requestAnimationFrame\<newline>'' @
     ''            - setTimeout/setInterval for timing\<newline>'' @
     ''            - Direct Three.js useFrame()\<newline>'' @
     ''\<newline>'' @
     ''            CODE PATTERNS:\<newline>'' @
     ''\<newline>'' @
     ''            ```typescript\<newline>'' @
     ''            // Frame-based animation\<newline>'' @
     ''            const frame = useCurrentFrame();\<newline>'' @
     ''            const opacity = interpolate(frame, [0, 30], [0, 1], {\<newline>'' @
     ''                extrapolateRight: 'clamp'\<newline>'' @
     ''            });\<newline>'' @
     ''\<newline>'' @
     ''            // Spring animation\<newline>'' @
     ''            const scale = spring({\<newline>'' @
     ''                frame,\<newline>'' @
     ''                fps: 30,\<newline>'' @
     ''                config: { damping: 12, stiffness: 200 }\<newline>'' @
     ''            });\<newline>'' @
     ''\<newline>'' @
     ''            // Sequence timing\<newline>'' @
     ''            <Sequence from={0} durationInFrames={90} name="Hook">\<newline>'' @
     ''                <HookScene />\<newline>'' @
     ''            </Sequence>\<newline>'' @
     ''            ```\<newline>'' @
     ''\<newline>'' @
     ''            COMPOSITION STRUCTURE:\<newline>'' @
     ''            - Export composition with proper dimensions\<newline>'' @
     ''            - Include durationInFrames, fps, width, height\<newline>'' @
     ''            - Use TypeScript for type safety\<newline>'' @
     ''            - Modular components for each scene''\<close>

definition remotion_coder :: agent where
  "remotion_coder = \<lparr>role = ''Remotion Code Generator'',
     goal = ''Generate production-ready Remotion React code'',
     backstory = remotion_coder_backstory, verbose = True, allow_delegation = False\<rparr>"

definition caption_animator_backstory :: string where
  \<open>caption_animator_backstory =
     ''You specialize in kinetic typography and caption animations.\<newline>'' @
     ''\<newline>'' @
     ''            CAPTION REQUIREMENTS:\<newline>'' @
     ''            - Word-by-word highlighting (active word pops)\<newline>'' @
     ''            - Sync perfectly to audio timing via wordTimings array\<newline>'' @
     ''            - Mobile-readable fonts (minimum 48px)\<newline>'' @
     ''            - High contrast (white on dark or vice versa)\<newline>'' @
     ''            - Drop shadows for legibility\<newline>'' @
     ''\<newline>'' @
     ''            ANIMATION PATTERNS:\<newline>'' @
     ''            - Active word: scale 1.1, bold, accent color\<newline>'' @
     ''            - Past words: normal weight, white\<newline>'' @
     ''            - Future words: lower opacity (0.5)\<newline>'' @
     ''\<newline>'' @
     ''            TIMING STRUCTURE:\<newline>'' @
     ''            ```typescript\<newline>'' @
     ''            interface WordTiming {\<newline>'' @
     ''                word: string;\<newline>'' @
     ''                start: number;  // seconds\<newline>'' @
     ''                end: number;    // seconds\<newline>'' @
     ''            }\<newline>'' @
     ''\<newline>'' @
     ''            // Calculate active word from frame\<newline>'' @
     ''            const currentSecond = frame / fps;\<newline>'' @
     ''            const activeIndex = wordTimings.findIndex(\<newline>'' @
     ''                w => currentSecond >= w.start && currentSecond < w.end\<newline>'' @
     ''            );\<newline>'' @
     ''            ```\<newline>'' @
     ''\<newline>'' @
     ''            ENTRANCE ANIMATIONS:\<newline>'' @
     ''            - Words fade in 0.1s before they're spoken\<newline>'' @
     ''            - Subtle bounce on active word\<newline>'' @
     ''            - Smooth color transitions''\<close>

definition caption_animator :: agent where
  "caption_animator = \<lparr>role = ''Caption & Typography Animator'',
     goal = ''Create TikTok-style captions with word-by-word highlighting'',
     backstory = caption_animator_backstory, verbose = True, allow_delegation = False\<rparr>"

definition generate_video_structure_description :: "string \<Rightarrow> string \<Rightarrow> specs \<Rightarrow> string" where
  \<open>generate_video_structure_description script platform specs =
     ''Design video structure for this script:\<newline>'' @
     ''\<newline>'' @
     ''            SCRIPT:\<newline>'' @
     ''            '' @
     script @
     ''\<newline>'' @
     ''\<newline>'' @
     ''            PLATFORM: '' @
     platform @
     ''\<newline>'' @
     ''            SPECS: '' @
     str_int (width specs) @
     ''x'' @
     str_int (height specs) @
     '' at '' @
     str_int (fps specs) @
     ''fps\<newline>'' @
     ''            MAX DURATION: '' @
     str_opt_int (max_duration specs) @
     '' seconds\<newline>'' @
     ''\<newline>'' @
     ''            CREATE:\<newline>'' @
     ''            1. Scene breakdown with timing (in frames at '' @
     str_int (fps specs) @
     ''fps)\<newline>'' @
     ''            2. Hook moment design (0-3 seconds)\<newline>'' @
     ''            3. Emotional arc with peak moments\<newline>'' @
     ''            4. CTA timing and placement\<newline>'' @
     ''            5. Caption/text overlay strategy\<newline>'' @
     ''            6. Scene transition points\<newline>'' @
     ''\<newline>'' @
     ''            OUTPUT:\<newline>'' @
     ''            - Detailed timing document\<newline>'' @
     ''            - Frame numbers for each scene\<newline>'' @
     ''            - Text overlay content and timing\<newline>'' @
     ''            ''\<close>

definition generate_remotion_code_description :: "string \<Rightarrow> string \<Rightarrow> specs \<Rightarrow> string" where
  \<open>generate_remotion_code_description structure script specs =
     ''Generate complete Remotion composition code.\<newline>'' @
     ''\<newline>'' @
     ''            VIDEO STRUCTURE:\<newline>'' @
     ''            '' @
     structure @
     ''\<newline>'' @
     ''\<newline>'' @
     ''            SCRIPT:\<newline>'' @
     ''            '' @
     script @
     ''\<newline>'' @
     ''\<newline>'' @
     ''            SPECS:\<newline>'' @
     ''            - Width: '' @
     str_int (width specs) @
     ''\<newline>'' @
     ''            - Height: '' @
     str_int (height specs) @
     ''\<newline>'' @
     ''            - FPS: '' @
     str_int (fps specs) @
     ''\<newline>'' @
     ''\<newline>'' @
     ''            REQUIREMENTS:\<newline>'' @
     ''            - TypeScript React component\<newline>'' @
     ''            - Use useCurrentFrame() and interpolate() for ALL animations\<newline>'' @
     ''            - Use spring() for natural movement\<newline>'' @
     ''            - Use <Sequence> for timing sections\<newline>'' @
     ''            - Export as proper Remotion composition\<newline>'' @
     ''            - Include durationInFrames, fps, width, height\<newline>'' @
     ''\<newline>'' @
     ''            MUST INCLUDE:\<newline>'' @
     ''            - Hook scene (0-3 seconds)\<newline>'' @
     ''            - Main content scenes\<newline>'' @
     ''            - CTA scene (last 3 seconds)\<newline>'' @
     ''            - Proper imports from 'remotion'\<newline>'' @
     ''\<newline>'' @
     ''            OUTPUT:\<newline>'' @
     ''            Complete TypeScript code that can be directly used in a Remotion project.\<newline>'' @
     ''            ''\<close>

definition structure_task_description :: "string \<Rightarrow> string \<Rightarrow> specs \<Rightarrow> string" where
  \<open>structure_task_description script platform specs =
     ''Design video structure for:\<newline>'' @
     ''\<newline>'' @
     ''            SCRIPT: '' @
     script @
     ''\<newline>'' @
     ''            PLATFORM: '' @
     platform @
     ''\<newline>'' @
     ''            SPECS: '' @
     str_specs specs @
     ''\<newline>'' @
     ''\<newline>'' @
     ''            Create scene breakdown with frame-accurate timing.''\<close>

definition code_task_description :: "string" where
  \<open>code_task_description =
     ''Generate Remotion composition code based on the structure.\<newline>'' @
     ''\<newline>'' @
     ''            Use the video structure to create:\<newline>'' @
     ''            - Main composition component\<newline>'' @
     ''            - Scene components\<newline>'' @
     ''            - Animation utilities\<newline>'' @
     ''\<newline>'' @
     ''            Follow all Remotion best practices.''\<close>

definition caption_task_description :: "string" where
  \<open>caption_task_description =
     ''Add TikTok-style captions to the video.\<newline>'' @
     ''\<newline>'' @
     ''            Create caption component that:\<newline>'' @
     ''            - Highlights words as they're spoken\<newline>'' @
     ''            - Uses spring animations\<newline>'' @
     ''            - Is mobile-readable\<newline>'' @
     ''\<newline>'' @
     ''            Integrate with the main composition.''\<close>

definition VideoCrew_create_agents :: "agent list" where
  "VideoCrew_create_agents = [video_director, remotion_coder, caption_animator]"

definition VideoCrew_init :: "(string \<rightharpoonup> string) \<Rightarrow> video_crew" where
  "VideoCrew_init campaign_strategy =
     \<lparr>strategy = campaign_strategy, video_agents = VideoCrew_create_agents\<rparr>"

text \<open>\<^verbatim>\<open>generate_video_structure(script, platform)\<close>: one task for the director.\<close>

definition generate_video_structure ::
  "video_crew \<Rightarrow> string \<Rightarrow> string \<Rightarrow> ('e, 's) executor \<Rightarrow> 's
     \<Rightarrow> ('e error + pyval) \<times> ('e, 's) run_state" where
  "generate_video_structure self script platform ex s =
     (case resolve_specs platform of
        Inl err \<Rightarrow> (Inl err, fresh_run s)
      | Inr specs \<Rightarrow>
     (let task_description = generate_video_structure_description script platform specs
      in case list_getitem (video_agents self) 0 of
           Inl err \<Rightarrow> (Inl err, fresh_run s)
         | Inr a0 \<Rightarrow>
             kickoff
               \<lparr>crew_agents = [a0],
                crew_tasks =
                  [\<lparr>task_id = ''task'', description = task_description,
                    expected_output = ''Complete video structure document with frame-accurate timing'',
                    agent = a0, task_context = []\<rparr>],
                crew_process = sequential, crew_verbose = True\<rparr>
               ex s))"

text \<open>\<^verbatim>\<open>generate_remotion_code(structure, script, platform)\<close>: one task for the coder.\<close>

definition generate_remotion_code ::
  "video_crew \<Rightarrow> string \<Rightarrow> string \<Rightarrow> string \<Rightarrow> ('e, 's) executor \<Rightarrow> 's
     \<Rightarrow> ('e error + pyval) \<times> ('e, 's) run_state" where
  "generate_remotion_code self structure script platform ex s =
     (case resolve_specs platform of
        Inl err \<Rightarrow> (Inl err, fresh_run s)
      | Inr specs \<Rightarrow>
     (let task_description = generate_remotion_code_description structure script specs
      in case list_getitem (video_agents self) 1 of
           Inl err \<Rightarrow> (Inl err, fresh_run s)
         | Inr a1 \<Rightarrow>
             kickoff
               \<lparr>crew_agents = [a1],
                crew_tasks =
                  [\<lparr>task_id = ''task'', description = task_description,
                    expected_output = ''Production-ready Remotion TypeScript composition'',
                    agent = a1, task_context = []\<rparr>],
                crew_process = sequential, crew_verbose = True\<rparr>
               ex s))"

text \<open>
  \<^verbatim>\<open>run_full_video_pipeline(script, platform="tiktok")\<close>: structure, code (with the
  structure task as context) and captions (with the code task as context), run by one
  crew. \<open>platform\<close> is \<open>None\<close> when the argument is omitted.
\<close>

definition run_full_video_pipeline ::
  "video_crew \<Rightarrow> string \<Rightarrow> string option \<Rightarrow> ('e, 's) executor \<Rightarrow> 's
     \<Rightarrow> ('e error + pydict) \<times> ('e, 's) run_state" where
  "run_full_video_pipeline self script platform_arg ex s =
     (let platform = (case platform_arg of None \<Rightarrow> ''tiktok'' | Some p \<Rightarrow> p)
      in case resolve_specs platform of
        Inl err \<Rightarrow> (Inl err, fresh_run s)
      | Inr specs \<Rightarrow>
     (case list_getitem (video_agents self) 0 of
        Inl err \<Rightarrow> (Inl err, fresh_run s)
      | Inr a0 \<Rightarrow>
     (case list_getitem (video_agents self) 1 of
        Inl err \<Rightarrow> (Inl err, fresh_run s)
      | Inr a1 \<Rightarrow>
     (case list_getitem (video_agents self) 2 of
        Inl err \<Rightarrow> (Inl err, fresh_run s)
      | Inr a2 \<Rightarrow>
     (let structure_task =
            \<lparr>task_id = ''structure_task'',
             description = structure_task_description script platform specs,
             expected_output = ''Complete video structure with timing'',
             agent = a0, task_context = []\<rparr>;
          code_task =
            \<lparr>task_id = ''code_task'', description = code_task_description,
             expected_output = ''Complete Remotion TypeScript code'',
             agent = a1, task_context = [task_id structure_task]\<rparr>;
          caption_task =
            \<lparr>task_id = ''caption_task'', description = caption_task_description,
             expected_output = ''Caption component integrated with video'',
             agent = a2, task_context = [task_id code_task]\<rparr>;
          c = \<lparr>crew_agents = video_agents self,
               crew_tasks = [structure_task, code_task, caption_task],
               crew_process = sequential, crew_verbose = True\<rparr>
      in case kickoff c ex s of
           (Inl err, st) \<Rightarrow> (Inl err, st)
         | (Inr result, st) \<Rightarrow>
             (Inr [(''structure'', task_output st structure_task),
                   (''remotion_code'', task_output st code_task),
                   (''final_code'', result),
                   (''platform'', PStr platform),
                   (''specs'', PSpecs specs)],
              st))))))"

section \<open>Scripted executors for the scenarios\<close>

text \<open>
  A mocked executor: its \<open>n\<close>-th call returns the \<open>n\<close>-th entry of a script, a text or a
  failure, whatever the step; its state counts the calls. Past the end of the script it
  fails.
\<close>

definition scripted_executor :: "(string + string) list \<Rightarrow> (string, nat) executor" where
  "scripted_executor script t inputs n =
     ((if n < length script then script ! n else Inl ''script exhausted''), Suc n)"

text \<open>
  A second mocked executor, without state: the outcome is looked up by the step's
  identity; a step the table does not list fails.
\<close>

definition keyed_executor :: "(string \<rightharpoonup> string + string) \<Rightarrow> (string, unit) executor" where
  "keyed_executor table t inputs u =
     ((case table (task_id t) of None \<Rightarrow> Inl ''no such step'' | Some r \<Rightarrow> r), u)"

text \<open>A crew of two steps, the second depending on the first, for runs of \<open>kickoff\<close> itself.\<close>

definition two_step_crew :: crew where
  "two_step_crew =
     \<lparr>crew_agents = [hook_specialist, psychology_copywriter],
      crew_tasks =
        [\<lparr>task_id = ''first'', description = ''Write a hook.'',
          expected_output = ''A hook'', agent = hook_specialist, task_context = []\<rparr>,
         \<lparr>task_id = ''second'', description = ''Write copy for the hook.'',
          expected_output = ''Copy'', agent = psychology_copywriter, task_context = [''first'']\<rparr>],
      crew_process = sequential, crew_verbose = False\<rparr>"

text \<open>The configuration of the end-to-end scenario.\<close>

definition scenario_brief :: "string \<rightharpoonup> string" where
  "scenario_brief =
     [''product'' \<mapsto> ''X'', ''audience'' \<mapsto> ''Y'', ''platform'' \<mapsto> ''tiktok'',
      ''emotional_trigger'' \<mapsto> ''relief'']"

section \<open>Observations on a run\<close>

text \<open>
  What a trace says: the steps that were executed, in order; each step with the
  dependencies it declares; the instruction each call was given; the outcomes.
\<close>

definition step_ids :: "'e event list \<Rightarrow> string list" where
  "step_ids evs = map (\<lambda>ev. task_id (ev_task ev)) evs"

definition declared :: "'e event list \<Rightarrow> (string \<times> string list) list" where
  "declared evs = map (\<lambda>ev. (task_id (ev_task ev), task_context (ev_task ev))) evs"

definition instructions :: "'e event list \<Rightarrow> string list" where
  "instructions evs = map (\<lambda>ev. description (ev_task ev)) evs"

definition outcomes :: "'e event list \<Rightarrow> ('e + string) list" where
  "outcomes evs = map ev_outcome evs"

text \<open>
  \<open>deps_recorded ctx evs\<close> replays a trace from the Run Context \<open>ctx\<close>: at every call,
  each dependency the step declares has an output recorded in the Run Context at that
  moment, and these recorded outputs are what the executor was given.
\<close>

fun deps_recorded :: "(string \<rightharpoonup> string) \<Rightarrow> 'e event list \<Rightarrow> bool" where
  "deps_recorded ctx [] = True"
| "deps_recorded ctx (ev # evs) =
     (map Some (ev_inputs ev) = map ctx (task_context (ev_task ev)) \<and>
      deps_recorded
        (case ev_outcome ev of
           Inl e \<Rightarrow> ctx
         | Inr out \<Rightarrow> ctx(task_id (ev_task ev) \<mapsto> out))
        evs)"


section \<open>Properties\<close>

subsection \<open>Unfolding a run\<close>

lemmas content_unfold =
  run_full_content_pipeline_def ContentCrew_init_def ContentCrew_create_agents_def
  list_getitem_def kickoff_def fresh_run_def task_output_def Let_def

lemmas video_unfold =
  run_full_video_pipeline_def VideoCrew_init_def VideoCrew_create_agents_def
  list_getitem_def kickoff_def fresh_run_def task_output_def Let_def

lemmas observe = step_ids_def declared_def instructions_def outcomes_def

lemma resolve_specs_total:
  "resolve_specs platform =
     Inr (dict_get PLATFORM_SPECS platform
            \<lparr>width = 1080, height = 1920, fps = 30, max_duration = Some 180\<rparr>)"
  by (simp add: resolve_specs_def dict_getitem_def PLATFORM_SPECS_def)

lemma run_tasks_trace_extends:
  fixes ex :: "('e, 's) executor"
  shows "\<exists>evs. trace (snd (run_tasks ex ts fin st)) = trace st @ evs"
proof (induction ts arbitrary: fin st)
  case Nil
  show ?case by simp
next
  case (Cons t ts)
  show ?case
  proof (cases "resolve_context (run_context st) (task_context t) :: 'e error + string list")
    case (Inl err)
    then show ?thesis by simp
  next
    case (Inr inputs)
    obtain r s' where call: "ex t inputs (exec_state st) = (r, s')"
      by (cases "ex t inputs (exec_state st)")
    show ?thesis
    proof (cases r)
      case (Inl e)
      with Inr call show ?thesis by simp
    next
      case out: (Inr out)
      let ?st = "st\<lparr>run_context := (run_context st)(task_id t \<mapsto> out),
                    trace := trace st @ [\<lparr>ev_task = t, ev_inputs = inputs, ev_outcome = Inr out\<rparr>],
                    exec_state := s'\<rparr>"
      from Cons.IH [of "PStr out" ?st] obtain evs
        where "trace (snd (run_tasks ex ts (PStr out) ?st)) = trace ?st @ evs" ..
      with Inr call out show ?thesis by simp
    qed
  qed
qed

lemma run_tasks_same_outcomes:
  fixes ex1 :: "('e, 's1) executor" and ex2 :: "('e, 's2) executor"
  assumes "run_context st1 = run_context st2" and "trace st1 = trace st2"
    and "outcomes (trace (snd (run_tasks ex1 ts fin st1))) =
         outcomes (trace (snd (run_tasks ex2 ts fin st2)))"
  shows "fst (run_tasks ex1 ts fin st1) = fst (run_tasks ex2 ts fin st2) \<and>
         run_context (snd (run_tasks ex1 ts fin st1)) = run_context (snd (run_tasks ex2 ts fin st2)) \<and>
         trace (snd (run_tasks ex1 ts fin st1)) = trace (snd (run_tasks ex2 ts fin st2))"
  using assms
proof (induction ts arbitrary: fin st1 st2)
  case Nil
  then show ?case by simp
next
  case (Cons t ts)
  show ?case
  proof (cases "resolve_context (run_context st1) (task_context t) :: 'e error + string list")
    case (Inl err)
    with Cons.prems show ?thesis by simp
  next
    case (Inr inputs)
    obtain r1 s1' where call1: "ex1 t inputs (exec_state st1) = (r1, s1')"
      by (cases "ex1 t inputs (exec_state st1)")
    obtain r2 s2' where call2: "ex2 t inputs (exec_state st2) = (r2, s2')"
      by (cases "ex2 t inputs (exec_state st2)")
    let ?ev1 = "\<lparr>ev_task = t, ev_inputs = inputs, ev_outcome = r1\<rparr>"
    let ?ev2 = "\<lparr>ev_task = t, ev_inputs = inputs, ev_outcome = r2\<rparr>"
    have ext1: "\<exists>evs. trace (snd (run_tasks ex1 (t # ts) fin st1)) = trace st1 @ ?ev1 # evs"
    proof (cases r1)
      case (Inl e)
      with Inr call1 show ?thesis by simp
    next
      case out: (Inr out)
      let ?st = "st1\<lparr>run_context := (run_context st1)(task_id t \<mapsto> out),
                    trace := trace st1 @ [?ev1], exec_state := s1'\<rparr>"
      from run_tasks_trace_extends [of ex1 ts "PStr out" ?st] obtain evs
        where "trace (snd (run_tasks ex1 ts (PStr out) ?st)) = trace ?st @ evs" ..
      with Inr call1 out show ?thesis by simp
    qed
    have ext2: "\<exists>evs. trace (snd (run_tasks ex2 (t # ts) fin st2)) = trace st2 @ ?ev2 # evs"
    proof (cases r2)
      case (Inl e)
      with Inr call2 Cons.prems(1) show ?thesis by simp
    next
      case out: (Inr out)
      let ?st = "st2\<lparr>run_context := (run_context st2)(task_id t \<mapsto> out),
                    trace := trace st2 @ [?ev2], exec_state := s2'\<rparr>"
      from run_tasks_trace_extends [of ex2 ts "PStr out" ?st] obtain evs
        where "trace (snd (run_tasks ex2 ts (PStr out) ?st)) = trace ?st @ evs" ..
      with Inr call2 out Cons.prems(1) show ?thesis by simp
    qed
    from ext1 ext2 Cons.prems(2,3) have same: "r1 = r2"
      by (auto simp: outcomes_def)
    show ?thesis
    proof (cases r1)
      case (Inl e)
      with same have "r2 = Inl e" by simp
      with Inl Inr call1 call2 Cons.prems(1,2) show ?thesis by simp
    next
      case out: (Inr out)
      let ?st1 = "st1\<lparr>run_context := (run_context st1)(task_id t \<mapsto> out),
                    trace := trace st1 @ [?ev1], exec_state := s1'\<rparr>"
      let ?st2 = "st2\<lparr>run_context := (run_context st2)(task_id t \<mapsto> out),
                    trace := trace st2 @ [?ev2], exec_state := s2'\<rparr>"
      have step1: "run_tasks ex1 (t # ts) fin st1 = run_tasks ex1 ts (PStr out) ?st1"
        using Inr call1 out by simp
      have step2: "run_tasks ex2 (t # ts) fin st2 = run_tasks ex2 ts (PStr out) ?st2"
        using Inr call2 out same Cons.prems(1) by simp
      have "run_context ?st1 = run_context ?st2" "trace ?st1 = trace ?st2"
        using Cons.prems(1,2) same by simp_all
      moreover have "outcomes (trace (snd (run_tasks ex1 ts (PStr out) ?st1))) =
                     outcomes (trace (snd (run_tasks ex2 ts (PStr out) ?st2)))"
        using Cons.prems(3) step1 step2 by simp
      ultimately show ?thesis
        unfolding step1 step2 by (rule Cons.IH)
    qed
  qed
qed


lemma run_tasks_success:
  fixes ex :: "('e, 's) executor"
  assumes "fst (run_tasks ex ts fin st) = Inr v"
  shows "step_ids (trace (snd (run_tasks ex ts fin st))) = step_ids (trace st) @ map task_id ts \<and>
         dom (run_context (snd (run_tasks ex ts fin st))) = dom (run_context st) \<union> set (map task_id ts) \<and>
         (\<exists>outs. length outs = length ts \<and>
            outcomes (trace (snd (run_tasks ex ts fin st))) = outcomes (trace st) @ map Inr outs)"
  using assms
proof (induction ts arbitrary: fin st)
  case Nil
  then show ?case by simp
next
  case (Cons t ts)
  show ?case
  proof (cases "resolve_context (run_context st) (task_context t) :: 'e error + string list")
    case (Inl err)
    with Cons.prems show ?thesis by simp
  next
    case (Inr inputs)
    obtain r s' where call: "ex t inputs (exec_state st) = (r, s')"
      by (cases "ex t inputs (exec_state st)")
    show ?thesis
    proof (cases r)
      case (Inl e)
      with Inr call Cons.prems show ?thesis by simp
    next
      case out: (Inr out)
      let ?st = "st\<lparr>run_context := (run_context st)(task_id t \<mapsto> out),
                    trace := trace st @ [\<lparr>ev_task = t, ev_inputs = inputs, ev_outcome = Inr out\<rparr>],
                    exec_state := s'\<rparr>"
      have step: "run_tasks ex (t # ts) fin st = run_tasks ex ts (PStr out) ?st"
        using Inr call out by simp
      with Cons.prems have "fst (run_tasks ex ts (PStr out) ?st) = Inr v" by simp
      from Cons.IH [OF this] obtain outs where
        ids: "step_ids (trace (snd (run_tasks ex ts (PStr out) ?st))) = step_ids (trace ?st) @ map task_id ts"
        and ctx: "dom (run_context (snd (run_tasks ex ts (PStr out) ?st))) = dom (run_context ?st) \<union> set (map task_id ts)"
        and len: "length outs = length ts"
        and outs: "outcomes (trace (snd (run_tasks ex ts (PStr out) ?st))) = outcomes (trace ?st) @ map Inr outs"
        by blast
      have "length (out # outs) = length (t # ts)" using len by simp
      moreover have "outcomes (trace (snd (run_tasks ex (t # ts) fin st))) =
          outcomes (trace st) @ map Inr (out # outs)"
        unfolding step outs by (simp add: outcomes_def)
      ultimately have "\<exists>outs. length outs = length (t # ts) \<and>
            outcomes (trace (snd (run_tasks ex (t # ts) fin st))) = outcomes (trace st) @ map Inr outs"
        by blast
      moreover have "step_ids (trace (snd (run_tasks ex (t # ts) fin st))) =
          step_ids (trace st) @ map task_id (t # ts)"
        unfolding step ids by (simp add: step_ids_def)
      moreover have "dom (run_context (snd (run_tasks ex (t # ts) fin st))) =
          dom (run_context st) \<union> set (map task_id (t # ts))"
        unfolding step ctx by simp
      ultimately show ?thesis by blast
    qed
  qed
qed

lemma run_tasks_failure:
  fixes ex :: "('e, 's) executor"
  assumes "Inl e \<notin> set (outcomes (trace st))"
    and "Inl e \<in> set (outcomes (trace (snd (run_tasks ex ts fin st))))"
  shows "fst (run_tasks ex ts fin st) = Inl (ExecutorError e) \<and>
         last (outcomes (trace (snd (run_tasks ex ts fin st)))) = Inl e"
  using assms
proof (induction ts arbitrary: fin st)
  case Nil
  then show ?case by simp
next
  case (Cons t ts)
  show ?case
  proof (cases "resolve_context (run_context st) (task_context t) :: 'e error + string list")
    case (Inl err)
    with Cons.prems show ?thesis by simp
  next
    case (Inr inputs)
    obtain r s' where call: "ex t inputs (exec_state st) = (r, s')"
      by (cases "ex t inputs (exec_state st)")
    show ?thesis
    proof (cases r)
      case (Inl e')
      with Inr call Cons.prems show ?thesis by (auto simp: outcomes_def)
    next
      case out: (Inr out)
      let ?st = "st\<lparr>run_context := (run_context st)(task_id t \<mapsto> out),
                    trace := trace st @ [\<lparr>ev_task = t, ev_inputs = inputs, ev_outcome = Inr out\<rparr>],
                    exec_state := s'\<rparr>"
      have step: "run_tasks ex (t # ts) fin st = run_tasks ex ts (PStr out) ?st"
        using Inr call out by simp
      have "Inl e \<notin> set (outcomes (trace ?st))"
        using Cons.prems(1) by (simp add: outcomes_def)
      moreover have "Inl e \<in> set (outcomes (trace (snd (run_tasks ex ts (PStr out) ?st))))"
        using Cons.prems(2) step by simp
      ultimately show ?thesis
        unfolding step by (rule Cons.IH)
    qed
  qed
qed

lemma kickoff_success:
  fixes ex :: "('e, 's) executor"
  assumes "fst (kickoff c ex s) = Inr v"
  shows "step_ids (trace (snd (kickoff c ex s))) = map task_id (crew_tasks c) \<and>
         dom (run_context (snd (kickoff c ex s))) = set (map task_id (crew_tasks c)) \<and>
         (\<exists>outs. length outs = length (crew_tasks c) \<and>
            outcomes (trace (snd (kickoff c ex s))) = map Inr outs)"
  using run_tasks_success [of ex "crew_tasks c" PNone "fresh_run s" v] assms
  by (simp add: kickoff_def fresh_run_def observe)

lemma kickoff_failure:
  fixes ex :: "('e, 's) executor"
  assumes "Inl e \<in> set (outcomes (trace (snd (kickoff c ex s))))"
  shows "fst (kickoff c ex s) = Inl (ExecutorError e) \<and>
         last (outcomes (trace (snd (kickoff c ex s)))) = Inl e"
  using run_tasks_failure [of e "fresh_run s" ex "crew_tasks c" PNone] assms
  by (simp add: kickoff_def fresh_run_def observe)

lemma scripted_0: "scripted_executor (x # xs) t i 0 = (x, Suc 0)"
  by (simp add: scripted_executor_def)

lemma scripted_1: "scripted_executor (x # y # xs) t i (Suc 0) = (y, Suc (Suc 0))"
  by (simp add: scripted_executor_def)

lemma scripted_2: "scripted_executor (x # y # z # xs) t i (Suc (Suc 0)) = (z, Suc (Suc (Suc 0)))"
  by (simp add: scripted_executor_def)

lemmas scripted = scripted_0 scripted_1 scripted_2

lemma content_success:
  assumes "fst (run_full_content_pipeline (ContentCrew_init b) ex s) = Inr r"
  shows "\<exists>o1 o2 o3.
           step_ids (trace (snd (run_full_content_pipeline (ContentCrew_init b) ex s))) =
             [''hook_task'', ''copy_task'', ''optimize_task''] \<and>
           outcomes (trace (snd (run_full_content_pipeline (ContentCrew_init b) ex s))) =
             [Inr o1, Inr o2, Inr o3] \<and>
           run_context (snd (run_full_content_pipeline (ContentCrew_init b) ex s)) =
             [''hook_task'' \<mapsto> o1, ''copy_task'' \<mapsto> o2, ''optimize_task'' \<mapsto> o3] \<and>
           r = [(''hooks'', PStr o1), (''copy'', PStr o2), (''optimized'', PStr o3),
                (''platform'', (case b ''platform'' of None \<Rightarrow> PNone | Some p \<Rightarrow> PStr p)),
                (''brief'', PDict b)]"
  using assms
  by (auto simp: content_unfold observe split: prod.splits sum.splits if_splits)

lemma video_success:
  assumes "fst (run_full_video_pipeline (VideoCrew_init g) script platform ex s) = Inr r"
  shows "\<exists>o1 o2 o3.
           step_ids (trace (snd (run_full_video_pipeline (VideoCrew_init g) script platform ex s))) =
             [''structure_task'', ''code_task'', ''caption_task''] \<and>
           outcomes (trace (snd (run_full_video_pipeline (VideoCrew_init g) script platform ex s))) =
             [Inr o1, Inr o2, Inr o3] \<and>
           run_context (snd (run_full_video_pipeline (VideoCrew_init g) script platform ex s)) =
             [''structure_task'' \<mapsto> o1, ''code_task'' \<mapsto> o2, ''caption_task'' \<mapsto> o3] \<and>
           r = [(''structure'', PStr o1), (''remotion_code'', PStr o2), (''final_code'', PStr o3),
                (''platform'', PStr (case platform of None \<Rightarrow> ''tiktok'' | Some p \<Rightarrow> p)),
                (''specs'', PSpecs (dict_get PLATFORM_SPECS (case platform of None \<Rightarrow> ''tiktok'' | Some p \<Rightarrow> p)
                    \<lparr>width = 1080, height = 1920, fps = 30, max_duration = Some 180\<rparr>))]"
  using assms
  by (auto simp: video_unfold resolve_specs_total observe split: prod.splits sum.splits if_splits)

lemma content_failure:
  assumes "Inl e \<in> set (outcomes (trace (snd (run_full_content_pipeline (ContentCrew_init b) ex s))))"
  shows "fst (run_full_content_pipeline (ContentCrew_init b) ex s) = Inl (ExecutorError e) \<and>
         ev_outcome (last (trace (snd (run_full_content_pipeline (ContentCrew_init b) ex s)))) = Inl e \<and>
         dom (run_context (snd (run_full_content_pipeline (ContentCrew_init b) ex s))) =
           set (butlast (step_ids (trace (snd (run_full_content_pipeline (ContentCrew_init b) ex s)))))"
  using assms
  by (auto simp: content_unfold observe split: prod.splits sum.splits if_splits)

lemma video_failure:
  assumes "Inl e \<in> set (outcomes (trace (snd (run_full_video_pipeline (VideoCrew_init g) script platform ex s))))"
  shows "fst (run_full_video_pipeline (VideoCrew_init g) script platform ex s) = Inl (ExecutorError e) \<and>
         ev_outcome (last (trace (snd (run_full_video_pipeline (VideoCrew_init g) script platform ex s)))) = Inl e \<and>
         dom (run_context (snd (run_full_video_pipeline (VideoCrew_init g) script platform ex s))) =
           set (butlast (step_ids (trace (snd (run_full_video_pipeline (VideoCrew_init g) script platform ex s)))))"
  using assms
  by (auto simp: video_unfold resolve_specs_total observe split: prod.splits sum.splits if_splits)


subsection \<open>The platform spec table\<close>

text \<open>
  Claim C9. Each of the five recognised platform identifiers has one fixed entry of
  \<^verbatim>\<open>PLATFORM_SPECS\<close>: width, height and frame rate, and a maximal duration that is 180
  for tiktok, 90 for instagram\_reels, 60 for youtube\_shorts and instagram\_feed, and
  \<^verbatim>\<open>None\<close> for youtube. The table has no other key, and the lookup the methods perform
  returns that entry for a recognised identifier.
\<close>

theorem platform_specs_table:
  "PLATFORM_SPECS ''tiktok'' = Some \<lparr>width = 1080, height = 1920, fps = 30, max_duration = Some 180\<rparr> \<and>
   PLATFORM_SPECS ''instagram_reels'' = Some \<lparr>width = 1080, height = 1920, fps = 30, max_duration = Some 90\<rparr> \<and>
   PLATFORM_SPECS ''youtube_shorts'' = Some \<lparr>width = 1080, height = 1920, fps = 30, max_duration = Some 60\<rparr> \<and>
   PLATFORM_SPECS ''youtube'' = Some \<lparr>width = 1920, height = 1080, fps = 30, max_duration = None\<rparr> \<and>
   PLATFORM_SPECS ''instagram_feed'' = Some \<lparr>width = 1080, height = 1080, fps = 30, max_duration = Some 60\<rparr> \<and>
   dom PLATFORM_SPECS = {''tiktok'', ''instagram_reels'', ''youtube_shorts'', ''youtube'', ''instagram_feed''} \<and>
   (resolve_specs ''tiktok'' :: 'e error + specs) = Inr \<lparr>width = 1080, height = 1920, fps = 30, max_duration = Some 180\<rparr> \<and>
   (resolve_specs ''instagram_reels'' :: 'e error + specs) = Inr \<lparr>width = 1080, height = 1920, fps = 30, max_duration = Some 90\<rparr> \<and>
   (resolve_specs ''youtube_shorts'' :: 'e error + specs) = Inr \<lparr>width = 1080, height = 1920, fps = 30, max_duration = Some 60\<rparr> \<and>
   (resolve_specs ''youtube'' :: 'e error + specs) = Inr \<lparr>width = 1920, height = 1080, fps = 30, max_duration = None\<rparr> \<and>
   (resolve_specs ''instagram_feed'' :: 'e error + specs) = Inr \<lparr>width = 1080, height = 1080, fps = 30, max_duration = Some 60\<rparr>"
  by (simp add: PLATFORM_SPECS_def resolve_specs_def dict_getitem_def dict_get_def)

subsection \<open>The end-to-end scenario\<close>

text \<open>
  Claim C1, as amended. With the brief \<open>{product: X, audience: Y, platform: tiktok,
  emotional_trigger: relief}\<close> and a mocked executor that returns \<open>H\<close>, \<open>C\<close>, \<open>O\<close> for
  the three steps, \<^verbatim>\<open>run_full_content_pipeline\<close> returns the dictionary with exactly the
  five keys \<open>hooks\<close>, \<open>copy\<close>, \<open>optimized\<close>, \<open>platform\<close>, \<open>brief\<close>, holding \<open>H\<close>,
  \<open>C\<close>, \<open>O\<close>, \<open>tiktok\<close> and the brief itself.
\<close>

theorem content_scenario_result:
  "fst (run_full_content_pipeline (ContentCrew_init scenario_brief)
          (scripted_executor [Inr ''H'', Inr ''C'', Inr ''O'']) 0) =
     Inr [(''hooks'', PStr ''H''), (''copy'', PStr ''C''), (''optimized'', PStr ''O''),
          (''platform'', PStr ''tiktok''), (''brief'', PDict scenario_brief)]"
  by (simp add: content_unfold scripted scenario_brief_def)

text \<open>
  Claim C1 as stated fails in that scenario: the result is not the four-key dictionary
  \<open>{hooks: H, copy: C, optimized: O, final: O}\<close>; it has no key \<open>final\<close>, and it has the
  keys \<open>platform\<close> and \<open>brief\<close>.
\<close>

theorem content_scenario_not_four_keys:
  "fst (run_full_content_pipeline (ContentCrew_init scenario_brief)
          (scripted_executor [Inr ''H'', Inr ''C'', Inr ''O'']) 0) \<noteq>
     Inr [(''hooks'', PStr ''H''), (''copy'', PStr ''C''), (''optimized'', PStr ''O''),
          (''final'', PStr ''O'')] \<and>
   map_of (projr (fst (run_full_content_pipeline (ContentCrew_init scenario_brief)
          (scripted_executor [Inr ''H'', Inr ''C'', Inr ''O'']) 0))) ''final'' = None \<and>
   map (fst) (projr (fst (run_full_content_pipeline (ContentCrew_init scenario_brief)
          (scripted_executor [Inr ''H'', Inr ''C'', Inr ''O'']) 0))) =
     [''hooks'', ''copy'', ''optimized'', ''platform'', ''brief'']"
  by (simp add: content_unfold scripted scenario_brief_def)

subsection \<open>Execution order\<close>

lemma content_declared:
  "declared (trace (snd (run_full_content_pipeline (ContentCrew_init b) ex s))) \<in>
     {[(''hook_task'', [])],
      [(''hook_task'', []), (''copy_task'', [''hook_task''])],
      [(''hook_task'', []), (''copy_task'', [''hook_task'']), (''optimize_task'', [''copy_task''])]}"
  by (simp add: content_unfold declared_def split: prod.splits sum.splits)

lemma content_deps:
  "deps_recorded Map.empty (trace (snd (run_full_content_pipeline (ContentCrew_init b) ex s)))"
  by (simp add: content_unfold split: prod.splits sum.splits)

lemma content_step_ids:
  "step_ids (trace (snd (run_full_content_pipeline (ContentCrew_init b) ex s))) \<in>
     {[''hook_task''], [''hook_task'', ''copy_task''],
      [''hook_task'', ''copy_task'', ''optimize_task'']}"
  by (simp add: content_unfold step_ids_def split: prod.splits sum.splits)

lemma video_declared:
  "declared (trace (snd (run_full_video_pipeline (VideoCrew_init g) script platform ex s))) \<in>
     {[(''structure_task'', [])],
      [(''structure_task'', []), (''code_task'', [''structure_task''])],
      [(''structure_task'', []), (''code_task'', [''structure_task'']), (''caption_task'', [''code_task''])]}"
  by (simp add: video_unfold resolve_specs_total declared_def split: prod.splits sum.splits)

lemma video_deps:
  "deps_recorded Map.empty (trace (snd (run_full_video_pipeline (VideoCrew_init g) script platform ex s)))"
  by (simp add: video_unfold resolve_specs_total split: prod.splits sum.splits)

lemma video_step_ids:
  "step_ids (trace (snd (run_full_video_pipeline (VideoCrew_init g) script platform ex s))) \<in>
     {[''structure_task''], [''structure_task'', ''code_task''],
      [''structure_task'', ''code_task'', ''caption_task'']}"
  by (simp add: video_unfold resolve_specs_total step_ids_def split: prod.splits sum.splits)

text \<open>
  Claim C3. In every run of either pipeline, whatever the executor does, the steps that
  execute are an initial part of the declared chain (hook, then copy, which depends on the
  hook, then platform optimisation, which depends on the copy; and structure, code,
  captions likewise), in that order; each step is given exactly the outputs that the Run
  Context holds for its declared dependencies at the moment it executes, so none executes
  before its dependency's output is recorded; and no step executes twice.
\<close>

theorem steps_run_in_dependency_order:
  "declared (trace (snd (run_full_content_pipeline (ContentCrew_init b) ex s))) \<in>
     {[(''hook_task'', [])],
      [(''hook_task'', []), (''copy_task'', [''hook_task''])],
      [(''hook_task'', []), (''copy_task'', [''hook_task'']), (''optimize_task'', [''copy_task''])]} \<and>
   deps_recorded Map.empty (trace (snd (run_full_content_pipeline (ContentCrew_init b) ex s))) \<and>
   distinct (step_ids (trace (snd (run_full_content_pipeline (ContentCrew_init b) ex s)))) \<and>
   declared (trace (snd (run_full_video_pipeline (VideoCrew_init g) script platform ex' s'))) \<in>
     {[(''structure_task'', [])],
      [(''structure_task'', []), (''code_task'', [''structure_task''])],
      [(''structure_task'', []), (''code_task'', [''structure_task'']), (''caption_task'', [''code_task''])]} \<and>
   deps_recorded Map.empty (trace (snd (run_full_video_pipeline (VideoCrew_init g) script platform ex' s'))) \<and>
   distinct (step_ids (trace (snd (run_full_video_pipeline (VideoCrew_init g) script platform ex' s'))))"
proof -
  have "distinct (step_ids (trace (snd (run_full_content_pipeline (ContentCrew_init b) ex s))))"
    using content_step_ids [of b ex s] by auto
  moreover have "distinct (step_ids (trace (snd (run_full_video_pipeline (VideoCrew_init g) script platform ex' s'))))"
    using video_step_ids [of g script platform ex' s'] by auto
  ultimately show ?thesis
    using content_declared [of b ex s] content_deps [of b ex s]
      video_declared [of g script platform ex' s'] video_deps [of g script platform ex' s']
    by blast
qed

subsection \<open>The last step's output\<close>

text \<open>
  Claim C2, as amended. In every successful run the output of the last step of the task
  sequence is in the result, under the key \<open>optimized\<close> for the content pipeline and
  \<open>final_code\<close> for the video pipeline; the result has no key named \<open>final\<close>.
\<close>

theorem last_output_under_own_key:
  "(fst (run_full_content_pipeline (ContentCrew_init b) ex s) = Inr r \<longrightarrow>
      map_of r ''final'' = None \<and>
      step_ids (trace (snd (run_full_content_pipeline (ContentCrew_init b) ex s))) = [''hook_task'', ''copy_task'', ''optimize_task''] \<and>
      (\<exists>out. last (outcomes (trace (snd (run_full_content_pipeline (ContentCrew_init b) ex s)))) = Inr out \<and>
             map_of r ''optimized'' = Some (PStr out))) \<and>
   (fst (run_full_video_pipeline (VideoCrew_init g) script platform ex' s') = Inr r' \<longrightarrow>
      map_of r' ''final'' = None \<and>
      step_ids (trace (snd (run_full_video_pipeline (VideoCrew_init g) script platform ex' s'))) = [''structure_task'', ''code_task'', ''caption_task''] \<and>
      (\<exists>out. last (outcomes (trace (snd (run_full_video_pipeline (VideoCrew_init g) script platform ex' s')))) = Inr out \<and>
             map_of r' ''final_code'' = Some (PStr out)))"
proof (intro conjI impI)
  assume ok: "fst (run_full_content_pipeline (ContentCrew_init b) ex s) = Inr r"
  from content_success [OF ok] obtain o1 o2 o3 where
    "step_ids (trace (snd (run_full_content_pipeline (ContentCrew_init b) ex s))) = [''hook_task'', ''copy_task'', ''optimize_task'']"
    "outcomes (trace (snd (run_full_content_pipeline (ContentCrew_init b) ex s))) = [Inr o1, Inr o2, Inr o3]"
    "r = [(''hooks'', PStr o1), (''copy'', PStr o2), (''optimized'', PStr o3),
          (''platform'', (case b ''platform'' of None \<Rightarrow> PNone | Some p \<Rightarrow> PStr p)),
          (''brief'', PDict b)]"
    by blast
  then show "map_of r ''final'' = None"
    and "step_ids (trace (snd (run_full_content_pipeline (ContentCrew_init b) ex s))) = [''hook_task'', ''copy_task'', ''optimize_task'']"
    and "\<exists>out. last (outcomes (trace (snd (run_full_content_pipeline (ContentCrew_init b) ex s)))) = Inr out \<and>
             map_of r ''optimized'' = Some (PStr out)"
    by simp_all
next
  assume ok: "fst (run_full_video_pipeline (VideoCrew_init g) script platform ex' s') = Inr r'"
  from video_success [OF ok] obtain o1 o2 o3 where
    "step_ids (trace (snd (run_full_video_pipeline (VideoCrew_init g) script platform ex' s'))) = [''structure_task'', ''code_task'', ''caption_task'']"
    "outcomes (trace (snd (run_full_video_pipeline (VideoCrew_init g) script platform ex' s'))) = [Inr o1, Inr o2, Inr o3]"
    "r' = [(''structure'', PStr o1), (''remotion_code'', PStr o2), (''final_code'', PStr o3),
          (''platform'', PStr (case platform of None \<Rightarrow> ''tiktok'' | Some p \<Rightarrow> p)),
          (''specs'', PSpecs (dict_get PLATFORM_SPECS (case platform of None \<Rightarrow> ''tiktok'' | Some p \<Rightarrow> p)
              \<lparr>width = 1080, height = 1920, fps = 30, max_duration = Some 180\<rparr>))]"
    by blast
  then show "map_of r' ''final'' = None"
    and "step_ids (trace (snd (run_full_video_pipeline (VideoCrew_init g) script platform ex' s'))) = [''structure_task'', ''code_task'', ''caption_task'']"
    and "\<exists>out. last (outcomes (trace (snd (run_full_video_pipeline (VideoCrew_init g) script platform ex' s')))) = Inr out \<and>
             map_of r' ''final_code'' = Some (PStr out)"
    by simp_all
qed

lemmas scenario_simps =
  content_unfold video_unfold resolve_specs_total scripted scenario_brief_def observe
  dict_get_def PLATFORM_SPECS_def

text \<open>
  The scenario run of the content pipeline and a run of the video pipeline for
  \<open>youtube\<close> succeed, so the amended claim C2 speaks about them.
\<close>

theorem last_output_under_own_key_witness:
  "fst (run_full_content_pipeline (ContentCrew_init scenario_brief) (scripted_executor [Inr ''H'', Inr ''C'', Inr ''O'']) 0) =
     Inr [(''hooks'', PStr ''H''), (''copy'', PStr ''C''), (''optimized'', PStr ''O''),
          (''platform'', PStr ''tiktok''), (''brief'', PDict scenario_brief)] \<and>
   last (outcomes (trace (snd (run_full_content_pipeline (ContentCrew_init scenario_brief) (scripted_executor [Inr ''H'', Inr ''C'', Inr ''O'']) 0)))) = Inr ''O'' \<and>
   fst (run_full_video_pipeline (VideoCrew_init Map.empty) ''script'' (Some ''youtube'') (scripted_executor [Inr ''S'', Inr ''R'', Inr ''F'']) 0) =
     Inr [(''structure'', PStr ''S''), (''remotion_code'', PStr ''R''), (''final_code'', PStr ''F''),
          (''platform'', PStr ''youtube''), (''specs'', PSpecs \<lparr>width = 1920, height = 1080, fps = 30, max_duration = None\<rparr>)] \<and>
   last (outcomes (trace (snd (run_full_video_pipeline (VideoCrew_init Map.empty) ''script'' (Some ''youtube'') (scripted_executor [Inr ''S'', Inr ''R'', Inr ''F'']) 0)))) = Inr ''F''"
  using last_output_under_own_key [of scenario_brief "scripted_executor [Inr ''H'', Inr ''C'', Inr ''O'']" 0
      "[(''hooks'', PStr ''H''), (''copy'', PStr ''C''), (''optimized'', PStr ''O''),
        (''platform'', PStr ''tiktok''), (''brief'', PDict scenario_brief)]"
      Map.empty "''script''" "Some ''youtube''" "scripted_executor [Inr ''S'', Inr ''R'', Inr ''F'']" 0
      "[(''structure'', PStr ''S''), (''remotion_code'', PStr ''R''), (''final_code'', PStr ''F''),
          (''platform'', PStr ''youtube''), (''specs'', PSpecs \<lparr>width = 1920, height = 1080, fps = 30, max_duration = None\<rparr>)]"]
  by (simp add: scenario_simps)

text \<open>
  Claim C2 as stated fails: the video run for \<open>youtube\<close> succeeds, its last step
  returns \<open>F\<close>, and the result has no field \<open>final\<close> at all.
\<close>

theorem video_result_has_no_final_field:
  "\<not> isl (fst (run_full_video_pipeline (VideoCrew_init Map.empty) ''script'' (Some ''youtube'') (scripted_executor [Inr ''S'', Inr ''R'', Inr ''F'']) 0)) \<and>
   last (outcomes (trace (snd (run_full_video_pipeline (VideoCrew_init Map.empty) ''script'' (Some ''youtube'') (scripted_executor [Inr ''S'', Inr ''R'', Inr ''F'']) 0)))) = Inr ''F'' \<and>
   map_of (projr (fst (run_full_video_pipeline (VideoCrew_init Map.empty) ''script'' (Some ''youtube'') (scripted_executor [Inr ''S'', Inr ''R'', Inr ''F'']) 0))) ''final'' \<noteq> Some (PStr ''F'') \<and>
   map_of (projr (fst (run_full_video_pipeline (VideoCrew_init Map.empty) ''script'' (Some ''youtube'') (scripted_executor [Inr ''S'', Inr ''R'', Inr ''F'']) 0))) ''final'' = None"
  by (simp add: scenario_simps)

subsection \<open>Failure of the executor\<close>

text \<open>
  Claim C5. When a call of the executor fails with \<open>e\<close> in a run of either pipeline,
  the run returns that failure with \<open>e\<close> unchanged and no result dictionary; the failing
  call is the last one of the run, so no later step executes; and the Run Context holds an
  output exactly for the steps before the failing one, so neither the failing step nor a
  later one records an output.
  The same holds for \<open>kickoff\<close> on any crew: the failure is returned and the failing
  call is the last.
\<close>

theorem executor_failure_aborts_run:
  "(Inl e \<in> set (outcomes (trace (snd (run_full_content_pipeline (ContentCrew_init b) ex s)))) \<longrightarrow>
      fst (run_full_content_pipeline (ContentCrew_init b) ex s) = Inl (ExecutorError e) \<and>
      last (outcomes (trace (snd (run_full_content_pipeline (ContentCrew_init b) ex s)))) = Inl e \<and>
      step_ids (trace (snd (run_full_content_pipeline (ContentCrew_init b) ex s))) \<in>
        {[''hook_task''], [''hook_task'', ''copy_task''],
         [''hook_task'', ''copy_task'', ''optimize_task'']} \<and>
      dom (run_context (snd (run_full_content_pipeline (ContentCrew_init b) ex s))) =
        set (butlast (step_ids (trace (snd (run_full_content_pipeline (ContentCrew_init b) ex s)))))) \<and>
   (Inl e' \<in> set (outcomes (trace (snd (run_full_video_pipeline (VideoCrew_init g) script platform ex' s')))) \<longrightarrow>
      fst (run_full_video_pipeline (VideoCrew_init g) script platform ex' s') = Inl (ExecutorError e') \<and>
      last (outcomes (trace (snd (run_full_video_pipeline (VideoCrew_init g) script platform ex' s')))) = Inl e' \<and>
      step_ids (trace (snd (run_full_video_pipeline (VideoCrew_init g) script platform ex' s'))) \<in>
        {[''structure_task''], [''structure_task'', ''code_task''],
         [''structure_task'', ''code_task'', ''caption_task'']} \<and>
      dom (run_context (snd (run_full_video_pipeline (VideoCrew_init g) script platform ex' s'))) =
        set (butlast (step_ids (trace (snd (run_full_video_pipeline (VideoCrew_init g) script platform ex' s')))))) \<and>
   (Inl e'' \<in> set (outcomes (trace (snd (kickoff c ex'' s'')))) \<longrightarrow>
      fst (kickoff c ex'' s'') = Inl (ExecutorError e'') \<and>
      last (outcomes (trace (snd (kickoff c ex'' s'')))) = Inl e'')"
proof (intro conjI impI)
  assume failed: "Inl e \<in> set (outcomes (trace (snd (run_full_content_pipeline (ContentCrew_init b) ex s))))"
  then have nonempty: "trace (snd (run_full_content_pipeline (ContentCrew_init b) ex s)) \<noteq> []"
    by (auto simp: outcomes_def)
  from content_failure [OF failed]
  show "fst (run_full_content_pipeline (ContentCrew_init b) ex s) = Inl (ExecutorError e)"
    and "dom (run_context (snd (run_full_content_pipeline (ContentCrew_init b) ex s))) =
        set (butlast (step_ids (trace (snd (run_full_content_pipeline (ContentCrew_init b) ex s)))))"
    by simp_all
  from content_failure [OF failed] nonempty
  show "last (outcomes (trace (snd (run_full_content_pipeline (ContentCrew_init b) ex s)))) = Inl e"
    by (simp add: outcomes_def last_map)
  show "step_ids (trace (snd (run_full_content_pipeline (ContentCrew_init b) ex s))) \<in>
        {[''hook_task''], [''hook_task'', ''copy_task''],
         [''hook_task'', ''copy_task'', ''optimize_task'']}"
    by (rule content_step_ids)
next
  assume failed: "Inl e' \<in> set (outcomes (trace (snd (run_full_video_pipeline (VideoCrew_init g) script platform ex' s'))))"
  then have nonempty: "trace (snd (run_full_video_pipeline (VideoCrew_init g) script platform ex' s')) \<noteq> []"
    by (auto simp: outcomes_def)
  from video_failure [OF failed]
  show "fst (run_full_video_pipeline (VideoCrew_init g) script platform ex' s') = Inl (ExecutorError e')"
    and "dom (run_context (snd (run_full_video_pipeline (VideoCrew_init g) script platform ex' s'))) =
        set (butlast (step_ids (trace (snd (run_full_video_pipeline (VideoCrew_init g) script platform ex' s')))))"
    by simp_all
  from video_failure [OF failed] nonempty
  show "last (outcomes (trace (snd (run_full_video_pipeline (VideoCrew_init g) script platform ex' s')))) = Inl e'"
    by (simp add: outcomes_def last_map)
  show "step_ids (trace (snd (run_full_video_pipeline (VideoCrew_init g) script platform ex' s'))) \<in>
        {[''structure_task''], [''structure_task'', ''code_task''],
         [''structure_task'', ''code_task'', ''caption_task'']}"
    by (rule video_step_ids)
next
  assume failed: "Inl e'' \<in> set (outcomes (trace (snd (kickoff c ex'' s''))))"
  from kickoff_failure [OF failed]
  show "fst (kickoff c ex'' s'') = Inl (ExecutorError e'')"
    and "last (outcomes (trace (snd (kickoff c ex'' s'')))) = Inl e''"
    by simp_all
qed

text \<open>
  The scenario of claim C5: an executor that fails on the second of the three steps. The
  third step is not executed and only the first step has an output recorded.
  On the two-step crew the executor fails at once, and the second step is not executed.
\<close>

theorem executor_failure_aborts_run_witness:
  "Inl ''boom'' \<in> set (outcomes (trace (snd (run_full_content_pipeline (ContentCrew_init scenario_brief) (scripted_executor [Inr ''H'', Inl ''boom'', Inr ''O'']) 0)))) \<and>
   fst (run_full_content_pipeline (ContentCrew_init scenario_brief) (scripted_executor [Inr ''H'', Inl ''boom'', Inr ''O'']) 0) = Inl (ExecutorError ''boom'') \<and>
   step_ids (trace (snd (run_full_content_pipeline (ContentCrew_init scenario_brief) (scripted_executor [Inr ''H'', Inl ''boom'', Inr ''O'']) 0))) = [''hook_task'', ''copy_task''] \<and>
   run_context (snd (run_full_content_pipeline (ContentCrew_init scenario_brief) (scripted_executor [Inr ''H'', Inl ''boom'', Inr ''O'']) 0)) = [''hook_task'' \<mapsto> ''H''] \<and>
   Inl ''boom'' \<in> set (outcomes (trace (snd (run_full_video_pipeline (VideoCrew_init Map.empty) ''script'' None (scripted_executor [Inr ''H'', Inl ''boom'', Inr ''O'']) 0)))) \<and>
   fst (run_full_video_pipeline (VideoCrew_init Map.empty) ''script'' None (scripted_executor [Inr ''H'', Inl ''boom'', Inr ''O'']) 0) = Inl (ExecutorError ''boom'') \<and>
   step_ids (trace (snd (run_full_video_pipeline (VideoCrew_init Map.empty) ''script'' None (scripted_executor [Inr ''H'', Inl ''boom'', Inr ''O'']) 0))) = [''structure_task'', ''code_task''] \<and>
   run_context (snd (run_full_video_pipeline (VideoCrew_init Map.empty) ''script'' None (scripted_executor [Inr ''H'', Inl ''boom'', Inr ''O'']) 0)) = [''structure_task'' \<mapsto> ''H''] \<and>
   Inl ''boom'' \<in> set (outcomes (trace (snd (kickoff two_step_crew (scripted_executor [Inl ''boom'', Inr ''O'']) 0)))) \<and>
   fst (kickoff two_step_crew (scripted_executor [Inl ''boom'', Inr ''O'']) 0) = Inl (ExecutorError ''boom'') \<and>
   step_ids (trace (snd (kickoff two_step_crew (scripted_executor [Inl ''boom'', Inr ''O'']) 0))) = [''first'']"
  using executor_failure_aborts_run [of "''boom''" scenario_brief "scripted_executor [Inr ''H'', Inl ''boom'', Inr ''O'']" 0
      "''boom''" Map.empty "''script''" None "scripted_executor [Inr ''H'', Inl ''boom'', Inr ''O'']" 0
      "''boom''" two_step_crew "scripted_executor [Inl ''boom'', Inr ''O'']" 0]
  by (simp add: scenario_simps two_step_crew_def)

subsection \<open>One output per step\<close>

text \<open>
  Claim C6. A successful run of either pipeline executes each of its three steps once, each
  producing one output; the Run Context then holds exactly one entry per step, keyed by
  the step; and the per-step entries of the returned result (its first three items) are
  these three outputs, one per step.
  For \<open>kickoff\<close> on any crew, a successful run executes the tasks of the crew in their
  order, one call and one output each, and the Run Context holds an entry for each task
  identifier and for nothing else.
\<close>

theorem one_output_per_step:
  "(fst (run_full_content_pipeline (ContentCrew_init b) ex s) = Inr r \<longrightarrow>
      (\<exists>o1 o2 o3.
         step_ids (trace (snd (run_full_content_pipeline (ContentCrew_init b) ex s))) = [''hook_task'', ''copy_task'', ''optimize_task''] \<and>
         outcomes (trace (snd (run_full_content_pipeline (ContentCrew_init b) ex s))) = [Inr o1, Inr o2, Inr o3] \<and>
         run_context (snd (run_full_content_pipeline (ContentCrew_init b) ex s)) =
           [''hook_task'' \<mapsto> o1, ''copy_task'' \<mapsto> o2, ''optimize_task'' \<mapsto> o3] \<and>
         take 3 r = [(''hooks'', PStr o1), (''copy'', PStr o2), (''optimized'', PStr o3)])) \<and>
   (fst (run_full_video_pipeline (VideoCrew_init g) script platform ex' s') = Inr r' \<longrightarrow>
      (\<exists>o1 o2 o3.
         step_ids (trace (snd (run_full_video_pipeline (VideoCrew_init g) script platform ex' s'))) = [''structure_task'', ''code_task'', ''caption_task''] \<and>
         outcomes (trace (snd (run_full_video_pipeline (VideoCrew_init g) script platform ex' s'))) = [Inr o1, Inr o2, Inr o3] \<and>
         run_context (snd (run_full_video_pipeline (VideoCrew_init g) script platform ex' s')) =
           [''structure_task'' \<mapsto> o1, ''code_task'' \<mapsto> o2, ''caption_task'' \<mapsto> o3] \<and>
         take 3 r' = [(''structure'', PStr o1), (''remotion_code'', PStr o2), (''final_code'', PStr o3)])) \<and>
   (fst (kickoff c ex'' s'') = Inr v \<longrightarrow>
      step_ids (trace (snd (kickoff c ex'' s''))) = map task_id (crew_tasks c) \<and>
      dom (run_context (snd (kickoff c ex'' s''))) = set (map task_id (crew_tasks c)) \<and>
      (\<exists>outs. length outs = length (crew_tasks c) \<and>
         outcomes (trace (snd (kickoff c ex'' s''))) = map Inr outs))"
proof (intro conjI impI)
  assume ok: "fst (run_full_content_pipeline (ContentCrew_init b) ex s) = Inr r"
  from content_success [OF ok] obtain o1 o2 o3 where
    "step_ids (trace (snd (run_full_content_pipeline (ContentCrew_init b) ex s))) = [''hook_task'', ''copy_task'', ''optimize_task'']"
    "outcomes (trace (snd (run_full_content_pipeline (ContentCrew_init b) ex s))) = [Inr o1, Inr o2, Inr o3]"
    "run_context (snd (run_full_content_pipeline (ContentCrew_init b) ex s)) =
       [''hook_task'' \<mapsto> o1, ''copy_task'' \<mapsto> o2, ''optimize_task'' \<mapsto> o3]"
    "r = [(''hooks'', PStr o1), (''copy'', PStr o2), (''optimized'', PStr o3),
          (''platform'', (case b ''platform'' of None \<Rightarrow> PNone | Some p \<Rightarrow> PStr p)),
          (''brief'', PDict b)]"
    by blast
  then have "step_ids (trace (snd (run_full_content_pipeline (ContentCrew_init b) ex s))) = [''hook_task'', ''copy_task'', ''optimize_task''] \<and>
         outcomes (trace (snd (run_full_content_pipeline (ContentCrew_init b) ex s))) = [Inr o1, Inr o2, Inr o3] \<and>
         run_context (snd (run_full_content_pipeline (ContentCrew_init b) ex s)) =
           [''hook_task'' \<mapsto> o1, ''copy_task'' \<mapsto> o2, ''optimize_task'' \<mapsto> o3] \<and>
         take 3 r = [(''hooks'', PStr o1), (''copy'', PStr o2), (''optimized'', PStr o3)]"
    by (simp add: numeral_3_eq_3)
  then show "\<exists>o1 o2 o3.
         step_ids (trace (snd (run_full_content_pipeline (ContentCrew_init b) ex s))) = [''hook_task'', ''copy_task'', ''optimize_task''] \<and>
         outcomes (trace (snd (run_full_content_pipeline (ContentCrew_init b) ex s))) = [Inr o1, Inr o2, Inr o3] \<and>
         run_context (snd (run_full_content_pipeline (ContentCrew_init b) ex s)) =
           [''hook_task'' \<mapsto> o1, ''copy_task'' \<mapsto> o2, ''optimize_task'' \<mapsto> o3] \<and>
         take 3 r = [(''hooks'', PStr o1), (''copy'', PStr o2), (''optimized'', PStr o3)]"
    by blast
next
  assume ok: "fst (run_full_video_pipeline (VideoCrew_init g) script platform ex' s') = Inr r'"
  from video_success [OF ok] obtain o1 o2 o3 where
    "step_ids (trace (snd (run_full_video_pipeline (VideoCrew_init g) script platform ex' s'))) = [''structure_task'', ''code_task'', ''caption_task'']"
    "outcomes (trace (snd (run_full_video_pipeline (VideoCrew_init g) script platform ex' s'))) = [Inr o1, Inr o2, Inr o3]"
    "run_context (snd (run_full_video_pipeline (VideoCrew_init g) script platform ex' s')) =
       [''structure_task'' \<mapsto> o1, ''code_task'' \<mapsto> o2, ''caption_task'' \<mapsto> o3]"
    "r' = [(''structure'', PStr o1), (''remotion_code'', PStr o2), (''final_code'', PStr o3),
          (''platform'', PStr (case platform of None \<Rightarrow> ''tiktok'' | Some p \<Rightarrow> p)),
          (''specs'', PSpecs (dict_get PLATFORM_SPECS (case platform of None \<Rightarrow> ''tiktok'' | Some p \<Rightarrow> p)
              \<lparr>width = 1080, height = 1920, fps = 30, max_duration = Some 180\<rparr>))]"
    by blast
  then have "step_ids (trace (snd (run_full_video_pipeline (VideoCrew_init g) script platform ex' s'))) = [''structure_task'', ''code_task'', ''caption_task''] \<and>
         outcomes (trace (snd (run_full_video_pipeline (VideoCrew_init g) script platform ex' s'))) = [Inr o1, Inr o2, Inr o3] \<and>
         run_context (snd (run_full_video_pipeline (VideoCrew_init g) script platform ex' s')) =
           [''structure_task'' \<mapsto> o1, ''code_task'' \<mapsto> o2, ''caption_task'' \<mapsto> o3] \<and>
         take 3 r' = [(''structure'', PStr o1), (''remotion_code'', PStr o2), (''final_code'', PStr o3)]"
    by (simp add: numeral_3_eq_3)
  then show "\<exists>o1 o2 o3.
         step_ids (trace (snd (run_full_video_pipeline (VideoCrew_init g) script platform ex' s'))) = [''structure_task'', ''code_task'', ''caption_task''] \<and>
         outcomes (trace (snd (run_full_video_pipeline (VideoCrew_init g) script platform ex' s'))) = [Inr o1, Inr o2, Inr o3] \<and>
         run_context (snd (run_full_video_pipeline (VideoCrew_init g) script platform ex' s')) =
           [''structure_task'' \<mapsto> o1, ''code_task'' \<mapsto> o2, ''caption_task'' \<mapsto> o3] \<and>
         take 3 r' = [(''structure'', PStr o1), (''remotion_code'', PStr o2), (''final_code'', PStr o3)]"
    by blast
next
  assume ok: "fst (kickoff c ex'' s'') = Inr v"
  from kickoff_success [OF ok]
  show "step_ids (trace (snd (kickoff c ex'' s''))) = map task_id (crew_tasks c)"
    and "dom (run_context (snd (kickoff c ex'' s''))) = set (map task_id (crew_tasks c))"
    and "\<exists>outs. length outs = length (crew_tasks c) \<and>
         outcomes (trace (snd (kickoff c ex'' s''))) = map Inr outs"
    by simp_all
qed

text \<open>
  Both pipelines have successful runs: the scenario run, and a video run for a platform
  that is not in the table.
\<close>

theorem one_output_per_step_witness:
  "fst (run_full_content_pipeline (ContentCrew_init scenario_brief) (scripted_executor [Inr ''H'', Inr ''C'', Inr ''O'']) 0) =
     Inr [(''hooks'', PStr ''H''), (''copy'', PStr ''C''), (''optimized'', PStr ''O''),
          (''platform'', PStr ''tiktok''), (''brief'', PDict scenario_brief)] \<and>
   outcomes (trace (snd (run_full_content_pipeline (ContentCrew_init scenario_brief) (scripted_executor [Inr ''H'', Inr ''C'', Inr ''O'']) 0))) = [Inr ''H'', Inr ''C'', Inr ''O''] \<and>
   run_context (snd (run_full_content_pipeline (ContentCrew_init scenario_brief) (scripted_executor [Inr ''H'', Inr ''C'', Inr ''O'']) 0)) =
     [''hook_task'' \<mapsto> ''H'', ''copy_task'' \<mapsto> ''C'', ''optimize_task'' \<mapsto> ''O''] \<and>
   fst (run_full_video_pipeline (VideoCrew_init Map.empty) ''script'' (Some ''linkedin'') (scripted_executor [Inr ''S'', Inr ''R'', Inr ''F'']) 0) =
     Inr [(''structure'', PStr ''S''), (''remotion_code'', PStr ''R''), (''final_code'', PStr ''F''),
          (''platform'', PStr ''linkedin''), (''specs'', PSpecs \<lparr>width = 1080, height = 1920, fps = 30, max_duration = Some 180\<rparr>)] \<and>
   outcomes (trace (snd (run_full_video_pipeline (VideoCrew_init Map.empty) ''script'' (Some ''linkedin'') (scripted_executor [Inr ''S'', Inr ''R'', Inr ''F'']) 0))) = [Inr ''S'', Inr ''R'', Inr ''F''] \<and>
   run_context (snd (run_full_video_pipeline (VideoCrew_init Map.empty) ''script'' (Some ''linkedin'') (scripted_executor [Inr ''S'', Inr ''R'', Inr ''F'']) 0)) =
     [''structure_task'' \<mapsto> ''S'', ''code_task'' \<mapsto> ''R'', ''caption_task'' \<mapsto> ''F''] \<and>
   fst (kickoff two_step_crew (scripted_executor [Inr ''H'', Inr ''C'']) 0) = Inr (PStr ''C'') \<and>
   outcomes (trace (snd (kickoff two_step_crew (scripted_executor [Inr ''H'', Inr ''C'']) 0))) =
     [Inr ''H'', Inr ''C''] \<and>
   run_context (snd (kickoff two_step_crew (scripted_executor [Inr ''H'', Inr ''C'']) 0)) =
     [''first'' \<mapsto> ''H'', ''second'' \<mapsto> ''C'']"
  using one_output_per_step [of scenario_brief "scripted_executor [Inr ''H'', Inr ''C'', Inr ''O'']" 0
      "[(''hooks'', PStr ''H''), (''copy'', PStr ''C''), (''optimized'', PStr ''O''),
        (''platform'', PStr ''tiktok''), (''brief'', PDict scenario_brief)]"
      Map.empty "''script''" "Some ''linkedin''" "scripted_executor [Inr ''S'', Inr ''R'', Inr ''F'']" 0
      "[(''structure'', PStr ''S''), (''remotion_code'', PStr ''R''), (''final_code'', PStr ''F''),
          (''platform'', PStr ''linkedin''), (''specs'', PSpecs \<lparr>width = 1080, height = 1920, fps = 30, max_duration = Some 180\<rparr>)]"
      two_step_crew "scripted_executor [Inr ''H'', Inr ''C'']" 0 "PStr ''C''"]
  by (simp add: scenario_simps two_step_crew_def)

subsection \<open>Echo of the configuration\<close>

text \<open>
  Claim C8, as amended. A successful run returns the per-step outputs and, alongside
  them, an echo of its configuration, and nothing else: the keys of the result are
  \<open>hooks\<close>, \<open>copy\<close>, \<open>optimized\<close>, \<open>platform\<close>, \<open>brief\<close> for the content pipeline
  and \<open>structure\<close>, \<open>remotion_code\<close>, \<open>final_code\<close>, \<open>platform\<close>, \<open>specs\<close> for the
  video pipeline, with no field named \<open>final\<close>. The content pipeline returns the
  campaign brief it was constructed with, unchanged, under \<open>brief\<close>, and the brief's
  platform value (\<^verbatim>\<open>None\<close> when the brief has none) under \<open>platform\<close>. The video
  pipeline returns the platform argument (\<open>tiktok\<close> when it is omitted) under
  \<open>platform\<close> and the spec entry resolved for it under \<open>specs\<close>.
\<close>

theorem configuration_is_echoed:
  "(fst (run_full_content_pipeline (ContentCrew_init b) ex s) = Inr r \<longrightarrow>
      map fst r = [''hooks'', ''copy'', ''optimized'', ''platform'', ''brief''] \<and>
      map_of r ''final'' = None \<and>
      map_of r ''brief'' = Some (PDict b) \<and>
      map_of r ''platform'' = Some (case b ''platform'' of None \<Rightarrow> PNone | Some p \<Rightarrow> PStr p)) \<and>
   (fst (run_full_video_pipeline (VideoCrew_init g) script (Some platform) ex' s') = Inr r' \<longrightarrow>
      map fst r' = [''structure'', ''remotion_code'', ''final_code'', ''platform'', ''specs''] \<and>
      map_of r' ''final'' = None \<and>
      map_of r' ''platform'' = Some (PStr platform) \<and>
      map_of r' ''specs'' = Some (PSpecs (dict_get PLATFORM_SPECS platform \<lparr>width = 1080, height = 1920, fps = 30, max_duration = Some 180\<rparr>))) \<and>
   (fst (run_full_video_pipeline (VideoCrew_init g) script None ex'' s'') = Inr r'' \<longrightarrow>
      map fst r'' = [''structure'', ''remotion_code'', ''final_code'', ''platform'', ''specs''] \<and>
      map_of r'' ''final'' = None \<and>
      map_of r'' ''platform'' = Some (PStr ''tiktok'') \<and>
      map_of r'' ''specs'' = Some (PSpecs \<lparr>width = 1080, height = 1920, fps = 30, max_duration = Some 180\<rparr>))"
proof (intro conjI impI)
  assume ok: "fst (run_full_content_pipeline (ContentCrew_init b) ex s) = Inr r"
 from content_success [OF ok]
  show "map fst r = [''hooks'', ''copy'', ''optimized'', ''platform'', ''brief'']"
    and "map_of r ''final'' = None"
    and "map_of r ''brief'' = Some (PDict b)"
    and "map_of r ''platform'' = Some (case b ''platform'' of None \<Rightarrow> PNone | Some p \<Rightarrow> PStr p)"
    by auto
next
  assume ok: "fst (run_full_video_pipeline (VideoCrew_init g) script (Some platform) ex' s') = Inr r'"
  from video_success [OF ok]
  show "map fst r' = [''structure'', ''remotion_code'', ''final_code'', ''platform'', ''specs'']"
    and "map_of r' ''final'' = None"
    and "map_of r' ''platform'' = Some (PStr platform)"
    and "map_of r' ''specs'' = Some (PSpecs (dict_get PLATFORM_SPECS platform \<lparr>width = 1080, height = 1920, fps = 30, max_duration = Some 180\<rparr>))"
    by auto
next
  assume ok: "fst (run_full_video_pipeline (VideoCrew_init g) script None ex'' s'') = Inr r''"
  from video_success [OF ok]
  show "map fst r'' = [''structure'', ''remotion_code'', ''final_code'', ''platform'', ''specs'']"
    and "map_of r'' ''final'' = None"
    and "map_of r'' ''platform'' = Some (PStr ''tiktok'')"
    and "map_of r'' ''specs'' = Some (PSpecs \<lparr>width = 1080, height = 1920, fps = 30, max_duration = Some 180\<rparr>)"
    by (auto simp: dict_get_def PLATFORM_SPECS_def)
qed


text \<open>
  Successful runs for claim C8: the scenario, a video run for \<open>youtube\<close>, and one with
  the platform argument omitted.
\<close>

theorem configuration_is_echoed_witness:
  "fst (run_full_content_pipeline (ContentCrew_init scenario_brief) (scripted_executor [Inr ''H'', Inr ''C'', Inr ''O'']) 0) =
     Inr [(''hooks'', PStr ''H''), (''copy'', PStr ''C''), (''optimized'', PStr ''O''),
          (''platform'', PStr ''tiktok''), (''brief'', PDict scenario_brief)] \<and>
   fst (run_full_video_pipeline (VideoCrew_init Map.empty) ''script'' (Some ''youtube'') (scripted_executor [Inr ''S'', Inr ''R'', Inr ''F'']) 0) =
     Inr [(''structure'', PStr ''S''), (''remotion_code'', PStr ''R''), (''final_code'', PStr ''F''),
          (''platform'', PStr ''youtube''), (''specs'', PSpecs \<lparr>width = 1920, height = 1080, fps = 30, max_duration = None\<rparr>)] \<and>
   fst (run_full_video_pipeline (VideoCrew_init Map.empty) ''script'' None (scripted_executor [Inr ''S'', Inr ''R'', Inr ''F'']) 0) =
     Inr [(''structure'', PStr ''S''), (''remotion_code'', PStr ''R''), (''final_code'', PStr ''F''),
          (''platform'', PStr ''tiktok''), (''specs'', PSpecs \<lparr>width = 1080, height = 1920, fps = 30, max_duration = Some 180\<rparr>)]"
  using configuration_is_echoed [of scenario_brief "scripted_executor [Inr ''H'', Inr ''C'', Inr ''O'']" 0
      "[(''hooks'', PStr ''H''), (''copy'', PStr ''C''), (''optimized'', PStr ''O''),
        (''platform'', PStr ''tiktok''), (''brief'', PDict scenario_brief)]"
      Map.empty "''script''" "''youtube''" "scripted_executor [Inr ''S'', Inr ''R'', Inr ''F'']" 0
      "[(''structure'', PStr ''S''), (''remotion_code'', PStr ''R''), (''final_code'', PStr ''F''),
        (''platform'', PStr ''youtube''), (''specs'', PSpecs \<lparr>width = 1920, height = 1080, fps = 30, max_duration = None\<rparr>)]"
      "scripted_executor [Inr ''S'', Inr ''R'', Inr ''F'']" 0
      "[(''structure'', PStr ''S''), (''remotion_code'', PStr ''R''), (''final_code'', PStr ''F''),
        (''platform'', PStr ''tiktok''), (''specs'', PSpecs \<lparr>width = 1080, height = 1920, fps = 30, max_duration = Some 180\<rparr>)]"]
  by (simp add: scenario_simps)

text \<open>
  Claim C8 as stated fails where it speaks of a \<open>final\<close> field beside the echo: a run
  for a brief that names only a product succeeds and echoes the brief, and its result has
  no field \<open>final\<close>.
\<close>

theorem echo_is_not_beside_a_final_field:
  "\<not> isl (fst (run_full_content_pipeline (ContentCrew_init [''product'' \<mapsto> ''Shoes'']) (scripted_executor [Inr ''H'', Inr ''C'', Inr ''O'']) 0)) \<and>
   map_of (projr (fst (run_full_content_pipeline (ContentCrew_init [''product'' \<mapsto> ''Shoes'']) (scripted_executor [Inr ''H'', Inr ''C'', Inr ''O'']) 0))) ''brief'' =
     Some (PDict [''product'' \<mapsto> ''Shoes'']) \<and>
   map_of (projr (fst (run_full_content_pipeline (ContentCrew_init [''product'' \<mapsto> ''Shoes'']) (scripted_executor [Inr ''H'', Inr ''C'', Inr ''O'']) 0))) ''platform'' = Some PNone \<and>
   map_of (projr (fst (run_full_content_pipeline (ContentCrew_init [''product'' \<mapsto> ''Shoes'']) (scripted_executor [Inr ''H'', Inr ''C'', Inr ''O'']) 0))) ''final'' = None"
  by (simp add: content_unfold scripted)

subsection \<open>Unknown platform identifiers\<close>

lemma resolve_specs_unknown:
  "platform \<notin> dom PLATFORM_SPECS \<Longrightarrow>
     resolve_specs platform = Inr \<lparr>width = 1080, height = 1920, fps = 30, max_duration = Some 180\<rparr>"
  by (simp add: resolve_specs_total dict_get_def domIff)

lemmas single_task_unfold =
  generate_video_structure_def generate_remotion_code_def generate_ad_copy_def
  VideoCrew_init_def VideoCrew_create_agents_def ContentCrew_init_def ContentCrew_create_agents_def
  list_getitem_def kickoff_def fresh_run_def Let_def

text \<open>
  Claim C4. For a platform identifier that is not a key of \<^verbatim>\<open>PLATFORM_SPECS\<close>, the
  lookup yields the \<open>tiktok\<close> entry. \<^verbatim>\<open>generate_video_structure\<close> and
  \<^verbatim>\<open>generate_remotion_code\<close> hand the executor the instruction built from that entry,
  and so does the first step of \<^verbatim>\<open>run_full_video_pipeline\<close>, whose result echoes the
  entry; none of the three raises an error of its own: each returns a value, or the
  failure of the executor.
\<close>

theorem unknown_platform_uses_default:
  assumes "platform \<notin> dom PLATFORM_SPECS"
  shows
  "(resolve_specs platform :: 'e error + specs) = Inr \<lparr>width = 1080, height = 1920, fps = 30, max_duration = Some 180\<rparr> \<and>
   instructions (trace (snd (generate_video_structure (VideoCrew_init g) script platform ex s))) =
     [generate_video_structure_description script platform \<lparr>width = 1080, height = 1920, fps = 30, max_duration = Some 180\<rparr>] \<and>
   ((\<exists>v. fst (generate_video_structure (VideoCrew_init g) script platform ex s) = Inr v) \<or> (\<exists>e. fst (generate_video_structure (VideoCrew_init g) script platform ex s) = Inl (ExecutorError e))) \<and>
   instructions (trace (snd (generate_remotion_code (VideoCrew_init g) structure script platform ex s))) =
     [generate_remotion_code_description structure script \<lparr>width = 1080, height = 1920, fps = 30, max_duration = Some 180\<rparr>] \<and>
   ((\<exists>v. fst (generate_remotion_code (VideoCrew_init g) structure script platform ex s) = Inr v) \<or> (\<exists>e. fst (generate_remotion_code (VideoCrew_init g) structure script platform ex s) = Inl (ExecutorError e))) \<and>
   take 1 (instructions (trace (snd (run_full_video_pipeline (VideoCrew_init g) script (Some platform) ex s)))) =
     [structure_task_description script platform \<lparr>width = 1080, height = 1920, fps = 30, max_duration = Some 180\<rparr>] \<and>
   ((\<exists>r. fst (run_full_video_pipeline (VideoCrew_init g) script (Some platform) ex s) = Inr r \<and> map_of r ''specs'' = Some (PSpecs \<lparr>width = 1080, height = 1920, fps = 30, max_duration = Some 180\<rparr>)) \<or>
    (\<exists>e. fst (run_full_video_pipeline (VideoCrew_init g) script (Some platform) ex s) = Inl (ExecutorError e)))"
proof (intro conjI)
  have dflt: "dict_get PLATFORM_SPECS platform \<lparr>width = 1080, height = 1920, fps = 30, max_duration = Some 180\<rparr> = \<lparr>width = 1080, height = 1920, fps = 30, max_duration = Some 180\<rparr>"
    using assms by (simp add: dict_get_def domIff)
  show "(resolve_specs platform :: 'e error + specs) = Inr \<lparr>width = 1080, height = 1920, fps = 30, max_duration = Some 180\<rparr>"
    using assms by (rule resolve_specs_unknown)
  show "instructions (trace (snd (generate_video_structure (VideoCrew_init g) script platform ex s))) =
     [generate_video_structure_description script platform \<lparr>width = 1080, height = 1920, fps = 30, max_duration = Some 180\<rparr>]"
    by (simp add: single_task_unfold resolve_specs_total dflt instructions_def
          split: prod.splits sum.splits)
  show "(\<exists>v. fst (generate_video_structure (VideoCrew_init g) script platform ex s) = Inr v) \<or> (\<exists>e. fst (generate_video_structure (VideoCrew_init g) script platform ex s) = Inl (ExecutorError e))"
    by (simp add: single_task_unfold resolve_specs_total split: prod.splits sum.splits)
  show "instructions (trace (snd (generate_remotion_code (VideoCrew_init g) structure script platform ex s))) =
     [generate_remotion_code_description structure script \<lparr>width = 1080, height = 1920, fps = 30, max_duration = Some 180\<rparr>]"
    by (simp add: single_task_unfold resolve_specs_total dflt instructions_def
          split: prod.splits sum.splits)
  show "(\<exists>v. fst (generate_remotion_code (VideoCrew_init g) structure script platform ex s) = Inr v) \<or> (\<exists>e. fst (generate_remotion_code (VideoCrew_init g) structure script platform ex s) = Inl (ExecutorError e))"
    by (simp add: single_task_unfold resolve_specs_total split: prod.splits sum.splits)
  show "take 1 (instructions (trace (snd (run_full_video_pipeline (VideoCrew_init g) script (Some platform) ex s)))) =
     [structure_task_description script platform \<lparr>width = 1080, height = 1920, fps = 30, max_duration = Some 180\<rparr>]"
    by (simp add: video_unfold resolve_specs_total dflt instructions_def
          split: prod.splits sum.splits)
  show "(\<exists>r. fst (run_full_video_pipeline (VideoCrew_init g) script (Some platform) ex s) = Inr r \<and> map_of r ''specs'' = Some (PSpecs \<lparr>width = 1080, height = 1920, fps = 30, max_duration = Some 180\<rparr>)) \<or>
    (\<exists>e. fst (run_full_video_pipeline (VideoCrew_init g) script (Some platform) ex s) = Inl (ExecutorError e))"
    by (simp add: video_unfold resolve_specs_total dflt split: prod.splits sum.splits)
qed

text \<open>
  \<open>linkedin\<close> is such an identifier.
\<close>

theorem unknown_platform_uses_default_witness:
  "''linkedin'' \<notin> dom PLATFORM_SPECS \<and>
   (resolve_specs ''linkedin'' :: string error + specs) = Inr \<lparr>width = 1080, height = 1920, fps = 30, max_duration = Some 180\<rparr> \<and>
   instructions (trace (snd (generate_video_structure (VideoCrew_init Map.empty) ''script'' ''linkedin'' (scripted_executor [Inr ''S'', Inr ''R'', Inr ''F'']) 0))) =
     [generate_video_structure_description ''script'' ''linkedin'' \<lparr>width = 1080, height = 1920, fps = 30, max_duration = Some 180\<rparr>] \<and>
   fst (generate_video_structure (VideoCrew_init Map.empty) ''script'' ''linkedin'' (scripted_executor [Inr ''S'', Inr ''R'', Inr ''F'']) 0) = Inr (PStr ''S'') \<and>
   instructions (trace (snd (generate_remotion_code (VideoCrew_init Map.empty) ''S'' ''script'' ''linkedin'' (scripted_executor [Inr ''S'', Inr ''R'', Inr ''F'']) 0))) =
     [generate_remotion_code_description ''S'' ''script'' \<lparr>width = 1080, height = 1920, fps = 30, max_duration = Some 180\<rparr>] \<and>
   fst (generate_remotion_code (VideoCrew_init Map.empty) ''S'' ''script'' ''linkedin'' (scripted_executor [Inr ''S'', Inr ''R'', Inr ''F'']) 0) = Inr (PStr ''S'') \<and>
   fst (run_full_video_pipeline (VideoCrew_init Map.empty) ''script'' (Some ''linkedin'') (scripted_executor [Inr ''S'', Inr ''R'', Inr ''F'']) 0) =
     Inr [(''structure'', PStr ''S''), (''remotion_code'', PStr ''R''), (''final_code'', PStr ''F''),
          (''platform'', PStr ''linkedin''), (''specs'', PSpecs \<lparr>width = 1080, height = 1920, fps = 30, max_duration = Some 180\<rparr>)]"
proof -
  have unknown: "''linkedin'' \<notin> dom PLATFORM_SPECS"
    by (simp add: PLATFORM_SPECS_def)
  show ?thesis
    using unknown
      unknown_platform_uses_default [OF unknown, of Map.empty "''script''"
        "scripted_executor [Inr ''S'', Inr ''R'', Inr ''F'']" 0 "''S''"]
    by (simp add: scenario_simps single_task_unfold)
qed

subsection \<open>Default mental models\<close>

text \<open>
  \<^verbatim>\<open>sep.join(xs)\<close> written without recursion: every element but the last is followed by
  the separator, then comes the last element.
\<close>

lemma py_join_concat:
  "py_join sep xs = concat (map (\<lambda>x. x @ sep) (butlast xs)) @ (if xs = [] then [] else last xs)"
  by (induction sep xs rule: py_join.induct) simp_all

text \<open>
  Claim C10. The instruction that \<^verbatim>\<open>generate_ad_copy\<close> hands the executor is one fixed
  text around the line of the mental models. With \<^verbatim>\<open>mental_models\<close> omitted
  (\<^verbatim>\<open>None\<close>) that line names exactly the two models Loss Aversion and Social Proof, and
  the call behaves as if that list had been supplied. With a list supplied, the line holds
  exactly the supplied models, in their order, each but the last followed by a comma and a
  space, and nothing else (nothing at all for the empty list).
\<close>

theorem default_mental_models:
  "\<exists>pre post.
     instructions (trace (snd (generate_ad_copy (ContentCrew_init b) hook product platform None ex s))) =
       [pre @ ''MENTAL MODELS TO APPLY: Loss Aversion, Social Proof'' @ ''\<newline>'' @ post] \<and>
     (\<forall>ms.
        instructions (trace (snd (generate_ad_copy (ContentCrew_init b) hook product platform (Some ms) ex s))) =
          [pre @ ''MENTAL MODELS TO APPLY: '' @
           concat (map (\<lambda>m. m @ '', '') (butlast ms)) @ (if ms = [] then [] else last ms) @
           ''\<newline>'' @ post]) \<and>
     instructions (trace (snd (generate_ad_copy (ContentCrew_init b) hook product platform
         (Some [''Scarcity'', ''Anchoring'', ''Reciprocity'']) ex s))) =
       [pre @ ''MENTAL MODELS TO APPLY: Scarcity, Anchoring, Reciprocity'' @ ''\<newline>'' @ post] \<and>
     generate_ad_copy (ContentCrew_init b) hook product platform None ex s =
       generate_ad_copy (ContentCrew_init b) hook product platform (Some [''Loss Aversion'', ''Social Proof'']) ex s"
proof -
  define pre where
    \<open>pre = ''Develop complete ad copy for:\<newline>'' @
       ''\<newline>'' @
       ''            HOOK: '' @
       hook @
       ''\<newline>'' @
       ''            PRODUCT: '' @
       product @
       ''\<newline>'' @
       ''            PLATFORM: '' @
       platform @
       ''\<newline>'' @
       ''            ''\<close>
  define post where
    \<open>post = ''\<newline>'' @
       ''            CREATE:\<newline>'' @
       ''            1. Primary text (125-250 characters for FB/IG)\<newline>'' @
       ''            2. Headline (benefit-driven, under 40 chars)\<newline>'' @
       ''            3. Description (supporting value prop)\<newline>'' @
       ''            4. CTA (action-oriented, creates urgency)\<newline>'' @
       ''\<newline>'' @
       ''            REQUIREMENTS:\<newline>'' @
       ''            - Apply each specified mental model deliberately\<newline>'' @
       ''            - Explain how each model is being used\<newline>'' @
       ''            - Match platform tone and style\<newline>'' @
       ''            - Focus on transformation, not features\<newline>'' @
       ''            ''\<close>
  have description: "generate_ad_copy_description hook product platform ms =
      pre @ ''MENTAL MODELS TO APPLY: '' @ py_join '', '' ms @ ''\<newline>'' @ post" for ms
    by (simp add: generate_ad_copy_description_def pre_def post_def)
  have call: "instructions (trace (snd (generate_ad_copy (ContentCrew_init b) hook product platform mm ex s))) =
      [generate_ad_copy_description hook product platform
         (case mm of None \<Rightarrow> [''Loss Aversion'', ''Social Proof''] | Some ms \<Rightarrow> ms)]" for mm
    by (simp add: single_task_unfold instructions_def split: prod.splits sum.splits)
  have "instructions (trace (snd (generate_ad_copy (ContentCrew_init b) hook product platform None ex s))) =
       [pre @ ''MENTAL MODELS TO APPLY: Loss Aversion, Social Proof'' @ ''\<newline>'' @ post]"
    by (simp add: call description)
  moreover have "\<forall>ms.
        instructions (trace (snd (generate_ad_copy (ContentCrew_init b) hook product platform (Some ms) ex s))) =
          [pre @ ''MENTAL MODELS TO APPLY: '' @
           concat (map (\<lambda>m. m @ '', '') (butlast ms)) @ (if ms = [] then [] else last ms) @
           ''\<newline>'' @ post]"
    by (simp add: call description py_join_concat)
  moreover have "instructions (trace (snd (generate_ad_copy (ContentCrew_init b) hook product platform
         (Some [''Scarcity'', ''Anchoring'', ''Reciprocity'']) ex s))) =
       [pre @ ''MENTAL MODELS TO APPLY: Scarcity, Anchoring, Reciprocity'' @ ''\<newline>'' @ post]"
    by (simp add: call description)
  moreover have "generate_ad_copy (ContentCrew_init b) hook product platform None ex s =
       generate_ad_copy (ContentCrew_init b) hook product platform (Some [''Loss Aversion'', ''Social Proof'']) ex s"
    by (simp add: generate_ad_copy_def)
  ultimately show ?thesis by blast
qed

subsection \<open>Determinism of the runner\<close>

lemma kickoff_same_outcomes:
  fixes ex1 :: "('e, 's1) executor" and ex2 :: "('e, 's2) executor"
  assumes "outcomes (trace (snd (kickoff c ex1 s1))) = outcomes (trace (snd (kickoff c ex2 s2)))"
  shows "fst (kickoff c ex1 s1) = fst (kickoff c ex2 s2) \<and>
         run_context (snd (kickoff c ex1 s1)) = run_context (snd (kickoff c ex2 s2)) \<and>
         trace (snd (kickoff c ex1 s1)) = trace (snd (kickoff c ex2 s2))"
  using assms unfolding kickoff_def
  by (intro run_tasks_same_outcomes) (simp_all add: fresh_run_def)

lemma content_same_outcomes:
  fixes ex1 :: "('e, 's1) executor" and ex2 :: "('e, 's2) executor"
  assumes "outcomes (trace (snd (run_full_content_pipeline (ContentCrew_init b) ex1 s1))) = outcomes (trace (snd (run_full_content_pipeline (ContentCrew_init b) ex2 s2)))"
  shows "fst (run_full_content_pipeline (ContentCrew_init b) ex1 s1) = fst (run_full_content_pipeline (ContentCrew_init b) ex2 s2) \<and>
         trace (snd (run_full_content_pipeline (ContentCrew_init b) ex1 s1)) = trace (snd (run_full_content_pipeline (ContentCrew_init b) ex2 s2)) \<and>
         run_context (snd (run_full_content_pipeline (ContentCrew_init b) ex1 s1)) = run_context (snd (run_full_content_pipeline (ContentCrew_init b) ex2 s2))"
proof -
  let ?hook = "\<lparr>task_id = ''hook_task'', description = hook_task_description (ContentCrew_init b),
       expected_output = ''5 hooks with psychological analysis'',
       agent = hook_specialist, task_context = []\<rparr>"
  let ?copy = "\<lparr>task_id = ''copy_task'', description = copy_task_description,
       expected_output = ''Complete ad copy with mental model application'',
       agent = psychology_copywriter, task_context = [''hook_task'']\<rparr>"
  let ?optimize = "\<lparr>task_id = ''optimize_task'', description = optimize_task_description (ContentCrew_init b),
       expected_output = ''Final platform-optimized content package'',
       agent = platform_expert, task_context = [''copy_task'']\<rparr>"
  let ?c = "\<lparr>crew_agents = ContentCrew_create_agents, crew_tasks = [?hook, ?copy, ?optimize],
       crew_process = sequential, crew_verbose = True\<rparr>"
  have run: "run_full_content_pipeline (ContentCrew_init b) ex s =
      (case kickoff ?c ex s of
         (Inl err, st) \<Rightarrow> (Inl err, st)
       | (Inr result, st) \<Rightarrow>
           (Inr [(''hooks'', task_output st ?hook), (''copy'', task_output st ?copy),
                 (''optimized'', result),
                 (''platform'', (case b ''platform'' of None \<Rightarrow> PNone | Some p \<Rightarrow> PStr p)),
                 (''brief'', PDict b)], st))"
    for ex :: "('e, 'x) executor" and s
    by (simp add: run_full_content_pipeline_def ContentCrew_init_def ContentCrew_create_agents_def
          list_getitem_def Let_def cong: prod.case_cong sum.case_cong)
  have snd_run: "snd (run_full_content_pipeline (ContentCrew_init b) ex s) = snd (kickoff ?c ex s)"
    for ex :: "('e, 'x) executor" and s
    unfolding run by (simp split: prod.splits sum.splits)
  from assms have "outcomes (trace (snd (kickoff ?c ex1 s1))) = outcomes (trace (snd (kickoff ?c ex2 s2)))"
    by (simp only: snd_run)
  from kickoff_same_outcomes [OF this]
  have k: "fst (kickoff ?c ex1 s1) = fst (kickoff ?c ex2 s2)"
      "run_context (snd (kickoff ?c ex1 s1)) = run_context (snd (kickoff ?c ex2 s2))"
      "trace (snd (kickoff ?c ex1 s1)) = trace (snd (kickoff ?c ex2 s2))"
    by simp_all
  obtain r1 st1 where k1: "kickoff ?c ex1 s1 = (r1, st1)" by (cases "kickoff ?c ex1 s1")
  obtain r2 st2 where k2: "kickoff ?c ex2 s2 = (r2, st2)" by (cases "kickoff ?c ex2 s2")
  from k k1 k2 have "r1 = r2" "run_context st1 = run_context st2" "trace st1 = trace st2"
    by simp_all
  then show ?thesis
    unfolding run k1 k2 by (simp add: task_output_def split: sum.splits)
qed

lemma video_same_outcomes:
  fixes ex1 :: "('e, 's1) executor" and ex2 :: "('e, 's2) executor"
  assumes "outcomes (trace (snd (run_full_video_pipeline (VideoCrew_init g) script platform ex1 s1))) = outcomes (trace (snd (run_full_video_pipeline (VideoCrew_init g) script platform ex2 s2)))"
  shows "fst (run_full_video_pipeline (VideoCrew_init g) script platform ex1 s1) = fst (run_full_video_pipeline (VideoCrew_init g) script platform ex2 s2) \<and>
         trace (snd (run_full_video_pipeline (VideoCrew_init g) script platform ex1 s1)) = trace (snd (run_full_video_pipeline (VideoCrew_init g) script platform ex2 s2)) \<and>
         run_context (snd (run_full_video_pipeline (VideoCrew_init g) script platform ex1 s1)) = run_context (snd (run_full_video_pipeline (VideoCrew_init g) script platform ex2 s2))"
proof -
  let ?platform = "case platform of None \<Rightarrow> ''tiktok'' | Some p \<Rightarrow> p"
  let ?specs = "dict_get PLATFORM_SPECS ?platform \<lparr>width = 1080, height = 1920, fps = 30, max_duration = Some 180\<rparr>"
  let ?structure = "\<lparr>task_id = ''structure_task'',
       description = structure_task_description script ?platform ?specs,
       expected_output = ''Complete video structure with timing'',
       agent = video_director, task_context = []\<rparr>"
  let ?code = "\<lparr>task_id = ''code_task'', description = code_task_description,
       expected_output = ''Complete Remotion TypeScript code'',
       agent = remotion_coder, task_context = [''structure_task'']\<rparr>"
  let ?caption = "\<lparr>task_id = ''caption_task'', description = caption_task_description,
       expected_output = ''Caption component integrated with video'',
       agent = caption_animator, task_context = [''code_task'']\<rparr>"
  let ?c = "\<lparr>crew_agents = VideoCrew_create_agents, crew_tasks = [?structure, ?code, ?caption],
       crew_process = sequential, crew_verbose = True\<rparr>"
  have run: "run_full_video_pipeline (VideoCrew_init g) script platform ex s =
      (case kickoff ?c ex s of
         (Inl err, st) \<Rightarrow> (Inl err, st)
       | (Inr result, st) \<Rightarrow>
           (Inr [(''structure'', task_output st ?structure), (''remotion_code'', task_output st ?code),
                 (''final_code'', result),
                 (''platform'', PStr ?platform),
                 (''specs'', PSpecs ?specs)], st))"
    for ex :: "('e, 'x) executor" and s
    by (simp add: run_full_video_pipeline_def VideoCrew_init_def VideoCrew_create_agents_def
          resolve_specs_total list_getitem_def Let_def cong: prod.case_cong sum.case_cong)
  have snd_run: "snd (run_full_video_pipeline (VideoCrew_init g) script platform ex s) = snd (kickoff ?c ex s)"
    for ex :: "('e, 'x) executor" and s
    unfolding run by (simp split: prod.splits sum.splits)
  from assms have "outcomes (trace (snd (kickoff ?c ex1 s1))) = outcomes (trace (snd (kickoff ?c ex2 s2)))"
    by (simp only: snd_run)
  from kickoff_same_outcomes [OF this]
  have k: "fst (kickoff ?c ex1 s1) = fst (kickoff ?c ex2 s2)"
      "run_context (snd (kickoff ?c ex1 s1)) = run_context (snd (kickoff ?c ex2 s2))"
      "trace (snd (kickoff ?c ex1 s1)) = trace (snd (kickoff ?c ex2 s2))"
    by simp_all
  obtain r1 st1 where k1: "kickoff ?c ex1 s1 = (r1, st1)" by (cases "kickoff ?c ex1 s1")
  obtain r2 st2 where k2: "kickoff ?c ex2 s2 = (r2, st2)" by (cases "kickoff ?c ex2 s2")
  from k k1 k2 have "r1 = r2" "run_context st1 = run_context st2" "trace st1 = trace st2"
    by simp_all
  then show ?thesis
    unfolding run k1 k2 by (simp add: task_output_def split: sum.splits)
qed

text \<open>
  Claim C7. Two runs of a pipeline with the same configuration, under two executors (of
  any kind, with any state) whose calls return the same outcomes step by step, return the
  same result, give the executor the same instructions and inputs at every step, and
  record the same Run Context.
\<close>

theorem runner_is_deterministic:
  fixes ex1 :: "('e, 's1) executor" and ex2 :: "('e, 's2) executor"
    and ex3 :: "('e, 's3) executor" and ex4 :: "('e, 's4) executor"
  shows
  "(outcomes (trace (snd (run_full_content_pipeline (ContentCrew_init b) ex1 s1))) = outcomes (trace (snd (run_full_content_pipeline (ContentCrew_init b) ex2 s2))) \<longrightarrow>
      fst (run_full_content_pipeline (ContentCrew_init b) ex1 s1) = fst (run_full_content_pipeline (ContentCrew_init b) ex2 s2) \<and>
         trace (snd (run_full_content_pipeline (ContentCrew_init b) ex1 s1)) = trace (snd (run_full_content_pipeline (ContentCrew_init b) ex2 s2)) \<and>
         run_context (snd (run_full_content_pipeline (ContentCrew_init b) ex1 s1)) = run_context (snd (run_full_content_pipeline (ContentCrew_init b) ex2 s2))) \<and>
   (outcomes (trace (snd (run_full_video_pipeline (VideoCrew_init g) script platform ex3 s3))) = outcomes (trace (snd (run_full_video_pipeline (VideoCrew_init g) script platform ex4 s4))) \<longrightarrow>
      fst (run_full_video_pipeline (VideoCrew_init g) script platform ex3 s3) = fst (run_full_video_pipeline (VideoCrew_init g) script platform ex4 s4) \<and>
         trace (snd (run_full_video_pipeline (VideoCrew_init g) script platform ex3 s3)) = trace (snd (run_full_video_pipeline (VideoCrew_init g) script platform ex4 s4)) \<and>
         run_context (snd (run_full_video_pipeline (VideoCrew_init g) script platform ex3 s3)) = run_context (snd (run_full_video_pipeline (VideoCrew_init g) script platform ex4 s4)))"
  using content_same_outcomes [of b ex1 s1 ex2 s2] video_same_outcomes [of g script platform ex3 s3 ex4 s4]
  by blast

lemma keyed_hit: "table (task_id t) = Some r \<Longrightarrow> keyed_executor table t inputs u = (r, u)"
  by (simp add: keyed_executor_def)

text \<open>
  Two different executors with the same outcomes: one replays a script by counting its
  calls, the other looks the outcome up by step and has no state.
\<close>

theorem runner_is_deterministic_witness:
  "outcomes (trace (snd (run_full_content_pipeline (ContentCrew_init scenario_brief) (scripted_executor [Inr ''H'', Inr ''C'', Inr ''O'']) 0))) = outcomes (trace (snd (run_full_content_pipeline (ContentCrew_init scenario_brief) (keyed_executor [''hook_task'' \<mapsto> Inr ''H'', ''copy_task'' \<mapsto> Inr ''C'', ''optimize_task'' \<mapsto> Inr ''O'']) ()))) \<and>
   fst (run_full_content_pipeline (ContentCrew_init scenario_brief) (scripted_executor [Inr ''H'', Inr ''C'', Inr ''O'']) 0) = fst (run_full_content_pipeline (ContentCrew_init scenario_brief) (keyed_executor [''hook_task'' \<mapsto> Inr ''H'', ''copy_task'' \<mapsto> Inr ''C'', ''optimize_task'' \<mapsto> Inr ''O'']) ()) \<and>
   fst (run_full_content_pipeline (ContentCrew_init scenario_brief) (keyed_executor [''hook_task'' \<mapsto> Inr ''H'', ''copy_task'' \<mapsto> Inr ''C'', ''optimize_task'' \<mapsto> Inr ''O'']) ()) =
     Inr [(''hooks'', PStr ''H''), (''copy'', PStr ''C''), (''optimized'', PStr ''O''),
          (''platform'', PStr ''tiktok''), (''brief'', PDict scenario_brief)] \<and>
   trace (snd (run_full_content_pipeline (ContentCrew_init scenario_brief) (scripted_executor [Inr ''H'', Inr ''C'', Inr ''O'']) 0)) = trace (snd (run_full_content_pipeline (ContentCrew_init scenario_brief) (keyed_executor [''hook_task'' \<mapsto> Inr ''H'', ''copy_task'' \<mapsto> Inr ''C'', ''optimize_task'' \<mapsto> Inr ''O'']) ())) \<and>
   outcomes (trace (snd (run_full_video_pipeline (VideoCrew_init Map.empty) ''script'' (Some ''youtube'') (scripted_executor [Inr ''H'', Inl ''boom'']) 0))) = outcomes (trace (snd (run_full_video_pipeline (VideoCrew_init Map.empty) ''script'' (Some ''youtube'') (keyed_executor [''structure_task'' \<mapsto> Inr ''H'', ''code_task'' \<mapsto> Inl ''boom'']) ()))) \<and>
   fst (run_full_video_pipeline (VideoCrew_init Map.empty) ''script'' (Some ''youtube'') (scripted_executor [Inr ''H'', Inl ''boom'']) 0) = fst (run_full_video_pipeline (VideoCrew_init Map.empty) ''script'' (Some ''youtube'') (keyed_executor [''structure_task'' \<mapsto> Inr ''H'', ''code_task'' \<mapsto> Inl ''boom'']) ()) \<and>
   fst (run_full_video_pipeline (VideoCrew_init Map.empty) ''script'' (Some ''youtube'') (keyed_executor [''structure_task'' \<mapsto> Inr ''H'', ''code_task'' \<mapsto> Inl ''boom'']) ()) = Inl (ExecutorError ''boom'') \<and>
   trace (snd (run_full_video_pipeline (VideoCrew_init Map.empty) ''script'' (Some ''youtube'') (scripted_executor [Inr ''H'', Inl ''boom'']) 0)) = trace (snd (run_full_video_pipeline (VideoCrew_init Map.empty) ''script'' (Some ''youtube'') (keyed_executor [''structure_task'' \<mapsto> Inr ''H'', ''code_task'' \<mapsto> Inl ''boom'']) ()))"
  using runner_is_deterministic [of scenario_brief "scripted_executor [Inr ''H'', Inr ''C'', Inr ''O'']" 0 "keyed_executor [''hook_task'' \<mapsto> Inr ''H'', ''copy_task'' \<mapsto> Inr ''C'', ''optimize_task'' \<mapsto> Inr ''O'']" "()"
      Map.empty "''script''" "Some ''youtube''" "scripted_executor [Inr ''H'', Inl ''boom'']" 0 "keyed_executor [''structure_task'' \<mapsto> Inr ''H'', ''code_task'' \<mapsto> Inl ''boom'']" "()"]
  by (simp add: scenario_simps keyed_hit)

end
